theory Spec2Isabelle
  imports Main
begin

section \<open>Python string and path primitives used by release.py\<close>

text \<open>
  Strings are Python 2 byte strings, modelled as \<^typ>\<open>string\<close>. The functions below are
  the library calls that \<^verbatim>\<open>src/tito/release.py\<close> makes on them: \<^verbatim>\<open>str.strip()\<close>,
  \<^verbatim>\<open>str.lower()\<close>, \<^verbatim>\<open>str.split(" ")\<close>, \<^verbatim>\<open>str.endswith\<close>, the substring test
  \<^verbatim>\<open>a in b\<close>, \<^verbatim>\<open>os.path.basename\<close> and \<^verbatim>\<open>os.path.join\<close> (POSIX flavour).
\<close>

definition is_space :: "char \<Rightarrow> bool" where
  "is_space c = (c \<in> set [CHR 0x20, CHR 0x09, CHR 0x0A, CHR 0x0B, CHR 0x0C, CHR 0x0D])"

definition strip :: "string \<Rightarrow> string" where
  "strip s = rev (dropWhile is_space (rev (dropWhile is_space s)))"

definition lower_char :: "char \<Rightarrow> char" where
  "lower_char c =
     (case map_of (zip ''ABCDEFGHIJKLMNOPQRSTUVWXYZ'' ''abcdefghijklmnopqrstuvwxyz'') c of
        None \<Rightarrow> c
      | Some l \<Rightarrow> l)"

definition lower :: "string \<Rightarrow> string" where
  "lower s = map lower_char s"

text \<open>\<^verbatim>\<open>s.split(" ")\<close>: split at every single blank; the result is never empty.\<close>

fun split_sp :: "string \<Rightarrow> string list" where
  "split_sp [] = [[]]"
| "split_sp (c # cs) =
     (if c = CHR 0x20 then [] # split_sp cs
      else (case split_sp cs of [] \<Rightarrow> [[c]] | word # words \<Rightarrow> (c # word) # words))"

definition startswith :: "string \<Rightarrow> string \<Rightarrow> bool" where
  "startswith s p = (take (length p) s = p)"

definition endswith :: "string \<Rightarrow> string \<Rightarrow> bool" where
  "endswith s e = (length e \<le> length s \<and> drop (length s - length e) s = e)"

text \<open>\<^verbatim>\<open>needle in haystack\<close> on strings: \<open>needle\<close> occurs as a contiguous substring.\<close>

fun str_contains :: "string \<Rightarrow> string \<Rightarrow> bool" where
  "str_contains needle [] = (needle = [])"
| "str_contains needle (c # cs) = (startswith (c # cs) needle \<or> str_contains needle cs)"

text \<open>\<^verbatim>\<open>os.path.basename(p)\<close> is \<^verbatim>\<open>p[p.rfind('/') + 1:]\<close>.\<close>

definition basename :: "string \<Rightarrow> string" where
  "basename p = rev (takeWhile (\<lambda>c. c \<noteq> CHR ''/'') (rev p))"

text \<open>\<^verbatim>\<open>os.path.join(a, b)\<close>; the three-argument call is the two-argument one iterated.\<close>

definition path_join :: "string \<Rightarrow> string \<Rightarrow> string" where
  "path_join a b =
     (if startswith b ''/'' then b
      else if a = [] \<or> endswith a ''/'' then a @ b
      else a @ ''/'' @ b)"

definition path_join3 :: "string \<Rightarrow> string \<Rightarrow> string \<Rightarrow> string" where
  "path_join3 a b c = path_join (path_join a b) c"

text \<open>\<^verbatim>\<open>"%s" % n\<close> for a non-negative integer.\<close>

definition digit_char :: "nat \<Rightarrow> char" where
  "digit_char d = ''0123456789'' ! d"

function str_nat :: "nat \<Rightarrow> string" where
  "str_nat n = (if n < 10 then [digit_char n] else str_nat (n div 10) @ [digit_char (n mod 10)])"
  by pat_completeness auto
termination
  by (relation "measure id") auto

declare str_nat.simps [simp del]

section \<open>The outside world: events, exceptions, and the sequencing of effects\<close>

text \<open>
  The releasers act on the world only through a handful of calls: printing, running a shell
  command (\<^verbatim>\<open>commands.getstatusoutput\<close>, directly or inside \<^verbatim>\<open>run_command\<close>), changing
  directory, prompting the operator (\<^verbatim>\<open>raw_input\<close>), starting the editor
  (\<^verbatim>\<open>subprocess.call\<close>), creating and removing the scratch file, and asking the builder
  for a source package. Every such call is recorded as an \<open>event\<close>, in program order.
  Calls to \<^verbatim>\<open>debug\<close> only produce optional diagnostics and are left out.
\<close>

datatype event =
    Print string
  | Stderr string
  | Exec string
  | Chdir string
  | Input string
  | Call "string list"
  | Mkstemp string
  | Write string string
  | Unlink string
  | Srpm string

text \<open>
  The exceptions that end a run: \<^verbatim>\<open>sys.exit(n)\<close>, the \<^verbatim>\<open>Exception\<close> raised by
  \<^verbatim>\<open>run_command\<close> for a failed command, \<^verbatim>\<open>OSError\<close> from \<^verbatim>\<open>subprocess.call\<close>, the two
  lookup errors of \<^verbatim>\<open>ConfigParser.get\<close>, a failure inside the builder, and
  \<^verbatim>\<open>IndexError\<close>.
\<close>

datatype exn =
    SystemExit nat
  | CommandError string
  | OSError
  | NoSectionError string
  | NoOptionError string string
  | BuilderError
  | IndexError

text \<open>
  What the world answers. Each answer may depend on everything that happened before (the
  events so far), so the same command can succeed once and fail the next time.
  A command's status is the non-negative wait status that \<^verbatim>\<open>commands.getstatusoutput\<close>
  returns.
\<close>

text \<open>
  How a child process ended, and the wait status that encodes it (as \<^verbatim>\<open>os.wait\<close> does, and
  as \<^verbatim>\<open>commands.getstatusoutput\<close> passes on): the exit code of a process that exited sits
  in the high byte, so exit code \<open>n\<close> is the status \<open>256 * n\<close>; a process killed by a
  signal has the signal number in the low seven bits, and bit 7 set if it dumped core.
\<close>

datatype process_end = Exited nat | Killed nat bool

definition wait_status :: "process_end \<Rightarrow> nat" where
  "wait_status e =
     (case e of
        Exited code \<Rightarrow> 256 * code
      | Killed signal core \<Rightarrow> signal + (if core then 128 else 0))"

record world =
  getstatusoutput :: "event list \<Rightarrow> string \<Rightarrow> nat \<times> string"
  raw_input :: "event list \<Rightarrow> string \<Rightarrow> string"
  subprocess_call :: "event list \<Rightarrow> string list \<Rightarrow> nat option"
  environ :: "string \<rightharpoonup> string"
  mkstemp :: "event list \<Rightarrow> string"
  extract_bzs :: "string \<Rightarrow> string list"
  builder_srpm :: "event list \<Rightarrow> string \<Rightarrow> string option"

type_synonym 'a io = "event list \<Rightarrow> event list \<times> (exn + 'a)"

definition ret :: "'a \<Rightarrow> 'a io" where
  "ret x tr = (tr, Inr x)"

definition raise :: "exn \<Rightarrow> 'a io" where
  "raise e tr = (tr, Inl e)"

definition then_do :: "'a io \<Rightarrow> ('a \<Rightarrow> 'b io) \<Rightarrow> 'b io" where
  "then_do m f tr = (case m tr of (tr', Inl e) \<Rightarrow> (tr', Inl e) | (tr', Inr x) \<Rightarrow> f x tr')"

definition seq :: "unit io \<Rightarrow> 'b io \<Rightarrow> 'b io" where
  "seq m k = then_do m (\<lambda>_. k)"

definition emit :: "event \<Rightarrow> unit io" where
  "emit ev tr = (tr @ [ev], Inr ())"

definition emits :: "event list \<Rightarrow> unit io" where
  "emits evs tr = (tr @ evs, Inr ())"

definition commands_getstatusoutput :: "world \<Rightarrow> string \<Rightarrow> (nat \<times> string) io" where
  "commands_getstatusoutput w cmd tr = (tr @ [Exec cmd], Inr (getstatusoutput w tr cmd))"

text \<open>
  Modelled from the spec: \<^verbatim>\<open>run_command\<close> lives in \<^verbatim>\<open>tito.common\<close>, which is not among
  the sources. The spec has every failed external command raise a fatal error that aborts
  the release (section 4.2, section 7), and the repository's own test helper follows the
  pattern \<^verbatim>\<open>if status > 0: raise Exception()\<close>. So: run the command, raise on a
  status above zero, return the captured output otherwise.
\<close>

definition run_command :: "world \<Rightarrow> string \<Rightarrow> string io" where
  "run_command w cmd =
     then_do (commands_getstatusoutput w cmd)
       (\<lambda>(status, output). if status > 0 then raise (CommandError cmd) else ret output)"

section \<open>The releaser object\<close>

definition PROTECTED_BUILD_SYS_FILES :: "string list" where
  "PROTECTED_BUILD_SYS_FILES =
     [''branch'', ''CVS'', ''.cvsignore'', ''Makefile'', ''sources'', ''.git'', ''.gitignore'']"

definition DEFAULT_KOJI_OPTS :: string where
  "DEFAULT_KOJI_OPTS = ''build --nowait''"

text \<open>
  The fields of \<^verbatim>\<open>Releaser\<close> that the modelled methods read. The fields of the builder
  collaborator (\<^verbatim>\<open>self.builder.spec_file\<close> and so on) are flattened into the record.
\<close>

record releaser =
  project_name :: string
  spec_file :: string
  rpmbuild_gitcopy :: string
  build_version :: string
  cvs_workdir :: string
  cvs_copy_extensions :: "string list"
  dry_run :: bool

definition cvs_package_workdir :: "'a releaser_scheme \<Rightarrow> string" where
  "cvs_package_workdir r = path_join (cvs_workdir r) (project_name r)"

text \<open>\<^verbatim>\<open>Releaser.cleanup\<close> (and its identical overrides in the subclasses).\<close>

definition cleanup :: "world \<Rightarrow> 'a releaser_scheme \<Rightarrow> unit io" where
  "cleanup w r = then_do (run_command w (''rm -rf '' @ cvs_package_workdir r)) (\<lambda>_. ret ())"

text \<open>\<^verbatim>\<open>Releaser.print_dry_run_warning\<close>: a blank line, the warning, a blank line.\<close>

definition print_dry_run_warning :: "string \<Rightarrow> unit io" where
  "print_dry_run_warning command_that_would_be_run_otherwise =
     emits [Print [],
            Print (''WARNING: Skipping command due to --dry-run: '' @
                   command_that_would_be_run_otherwise),
            Print []]"

section \<open>File synchronisation: \<^verbatim>\<open>_list_files_to_copy\<close> and \<^verbatim>\<open>_sync_files\<close>\<close>

text \<open>
  \<^verbatim>\<open>_list_files_to_copy\<close> scans \<^verbatim>\<open>os.listdir(self.builder.rpmbuild_gitcopy)\<close>; the listing
  is given as pairs of an entry name and whether \<^verbatim>\<open>os.path.isdir\<close> holds for it.
\<close>

fun list_files_scan :: "string \<Rightarrow> string list \<Rightarrow> (string \<times> bool) list \<Rightarrow> string list" where
  "list_files_scan gitcopy exts [] = []"
| "list_files_scan gitcopy exts ((filename, isdir) # rest) =
     (let full_filepath = path_join gitcopy filename in
      if isdir then list_files_scan gitcopy exts rest
      else if filename \<in> set PROTECTED_BUILD_SYS_FILES then list_files_scan gitcopy exts rest
      else if endswith filename ''.spec'' then list_files_scan gitcopy exts rest
      else if list_ex (\<lambda>extension. endswith filename extension) exts
        then full_filepath # list_files_scan gitcopy exts rest
      else list_files_scan gitcopy exts rest)"

definition list_files_to_copy :: "'a releaser_scheme \<Rightarrow> (string \<times> bool) list \<Rightarrow> string list" where
  "list_files_to_copy r listing =
     spec_file r # list_files_scan (rpmbuild_gitcopy r) (cvs_copy_extensions r) listing"

text \<open>
  The destination directory is represented by its listing (\<^verbatim>\<open>os.listdir(dest_dir)\<close>), and
  it is taken to exist. \<^verbatim>\<open>os.path.exists(os.path.join(dest_dir, b))\<close> for a base name \<open>b\<close>
  (which has no slash) holds when \<open>b\<close> is an entry, and also for the empty name and the two
  dot names, which denote the directory itself and its parent. A \<^verbatim>\<open>cp\<close> that
  \<^verbatim>\<open>run_command\<close> reports as successful leaves the destination path existing.
\<close>

definition path_exists :: "string list \<Rightarrow> string \<Rightarrow> bool" where
  "path_exists dest b = (b = [] \<or> b = ''.'' \<or> b = ''..'' \<or> b \<in> set dest)"

definition cp_effect :: "string \<Rightarrow> string list \<Rightarrow> string list" where
  "cp_effect b dest = (if path_exists dest b then dest else dest @ [b])"

text \<open>The copy loop of \<^verbatim>\<open>_sync_files\<close> (lines 204--216), threading \<open>new_files\<close> and the
  destination listing.\<close>

fun sync_copy ::
  "world \<Rightarrow> string \<Rightarrow> string list \<Rightarrow> string list \<Rightarrow> string list \<Rightarrow> (string list \<times> string list) io"
where
  "sync_copy w dest_dir [] new_files dest = ret (new_files, dest)"
| "sync_copy w dest_dir (copy_me # rest) new_files dest =
     (let base_filename = basename copy_me;
          dest_path = path_join dest_dir base_filename;
          is_new = (\<not> path_exists dest base_filename)
      in seq (emit (Print ((if is_new then ''   adding: '' else ''   copying: '') @ base_filename)))
          (then_do (run_command w (''cp '' @ copy_me @ '' '' @ dest_path))
             (\<lambda>_. sync_copy w dest_dir rest
                    (if is_new then new_files @ [base_filename] else new_files)
                    (cp_effect base_filename dest))))"

text \<open>
  \<^verbatim>\<open>_sync_files\<close>. The result is the triple \<^verbatim>\<open>(new_files, copied_files, old_files)\<close>,
  paired with the destination listing after the copies. \<open>copied_files\<close> is created empty and
  returned; no statement of the source appends to it.
\<close>

definition sync_files ::
  "world \<Rightarrow> string list \<Rightarrow> string \<Rightarrow> string list \<Rightarrow>
     ((string list \<times> string list \<times> string list) \<times> string list) io"
where
  "sync_files w files_to_copy dest_dir dest =
     seq (emit (Chdir dest_dir))
       (let filenames_to_copy = map basename files_to_copy;
            copied_files = []
        in then_do (sync_copy w dest_dir files_to_copy [] dest)
             (\<lambda>(new_files, dest').
                let old_files =
                      filter (\<lambda>filename. filename \<notin> set PROTECTED_BUILD_SYS_FILES \<and>
                                          filename \<notin> set filenames_to_copy) dest'
                in seq (emits (map (\<lambda>filename. Print (''   deleting: '' @ filename)) old_files))
                     (ret ((new_files, copied_files, old_files), dest'))))"

section \<open>The git-backed releaser: \<^verbatim>\<open>FedoraGitReleaser\<close>\<close>

text \<open>
  \<^verbatim>\<open>self.git_branches\<close> is the release target's \<^verbatim>\<open>branches\<close> option split at blanks
  (\<^verbatim>\<open>__init__\<close>, lines 307--308).
\<close>

record git_releaser = releaser +
  branches :: string

definition git_branches :: "git_releaser \<Rightarrow> string list" where
  "git_branches r = split_sp (branches r)"

text \<open>\<^verbatim>\<open>answer.lower() in ['y', 'yes', 'ok', 'sure']\<close>.\<close>

definition affirmative :: "string \<Rightarrow> bool" where
  "affirmative answer = (lower answer \<in> set [''y'', ''yes'', ''ok'', ''sure''])"

definition ask :: "world \<Rightarrow> string \<Rightarrow> string io" where
  "ask w prompt tr = (tr @ [Input prompt], Inr (raw_input w tr prompt))"

definition banner_lines :: "string \<Rightarrow> event list" where
  "banner_lines text =
     [Print [], Print (replicate (length text) CHR ''#''), Print text,
      Print (replicate (length text) CHR ''#''), Print []]"

definition banner :: "string \<Rightarrow> unit io" where
  "banner text = emits (banner_lines text)"

text \<open>\<^verbatim>\<open>FedoraGitReleaser._build\<close> (lines 394--411).\<close>

definition build :: "world \<Rightarrow> 'a releaser_scheme \<Rightarrow> unit io" where
  "build w r =
     (let build_cmd = ''fedpkg build --nowait'' in
      if dry_run r then print_dry_run_warning build_cmd
      else seq (emit (Print (''Submitting build: '' @ build_cmd)))
             (then_do (commands_getstatusoutput w build_cmd)
                (\<lambda>(status, output).
                   if status > 0 then
                     (if str_contains ''already been built'' output
                      then emit (Print ''Build has been submitted previously, continuing...'')
                      else seq (emits [Stderr ''ERROR: Unable to submit build.'',
                                       Stderr (''  Status code: '' @ str_nat status),
                                       Stderr (''  Output: '' @ output)])
                             (raise (SystemExit 1)))
                   else ret ())))"

text \<open>
  \<^verbatim>\<open>_git_user_confirm_commit\<close>, in the four stretches it consists of. First the review
  of the staged diff and the commit (lines 346--367).
\<close>

definition git_commit_cmd :: "'a releaser_scheme \<Rightarrow> string" where
  "git_commit_cmd r =
     ''fedpkg commit -m '' @ [CHR 0x22] @ ''Update '' @ project_name r @ '' to '' @
       build_version r @ [CHR 0x22]"

definition git_review :: "world \<Rightarrow> git_releaser \<Rightarrow> string \<Rightarrow> string \<Rightarrow> unit io" where
  "git_review w r project_checkout main_branch =
     seq (emit (Chdir project_checkout))
       (then_do (commands_getstatusoutput w ''git diff --cached'')
          (\<lambda>(status, diff_output).
             if strip diff_output = []
             then emit (Print (''No changes in main branch, skipping commit for: '' @ main_branch))
             else seq (emits [Print diff_output, Print [],
                              Print ''##### Please review the above diff #####''])
                    (then_do (ask w ''Do you wish to proceed with commit? [y/n] '')
                       (\<lambda>answer.
                          seq (if \<not> affirmative answer
                               then seq (emit (Print (''Fine, you'' @ [CHR 0x27] @ ''re on your own!'')))
                                      (seq (cleanup w r) (raise (SystemExit 1)))
                               else ret ())
                            (seq (emits [Print ''Proceeding with commit.'', Print [],
                                         Chdir (cvs_package_workdir r)])
                               (then_do (run_command w (git_commit_cmd r)) (\<lambda>output. ret ())))))))"

text \<open>The push of the main branch (lines 369--375).\<close>

definition git_push :: "world \<Rightarrow> 'a releaser_scheme \<Rightarrow> string \<Rightarrow> unit io" where
  "git_push w r cmd =
     (if dry_run r then print_dry_run_warning cmd
      else seq (emit (Print cmd)) (then_do (run_command w cmd) (\<lambda>output. ret ())))"

text \<open>The loop over the remaining branches (lines 379--392).\<close>

fun git_merge_branches :: "world \<Rightarrow> git_releaser \<Rightarrow> string \<Rightarrow> string list \<Rightarrow> unit io" where
  "git_merge_branches w r main_branch [] = ret ()"
| "git_merge_branches w r main_branch (branch # rest) =
     seq (emit (Print (''Merging '' @ main_branch @ '' into '' @ branch)))
       (then_do (run_command w (''fedpkg switch-branch '' @ branch))
          (\<lambda>_. then_do (run_command w (''git merge '' @ main_branch))
             (\<lambda>_. seq (git_push w r (''git push origin '' @ branch @ '':'' @ branch))
                (seq (build w r)
                   (seq (emit (Print []))
                      (git_merge_branches w r main_branch rest))))))"

definition git_user_confirm_commit :: "world \<Rightarrow> git_releaser \<Rightarrow> string \<Rightarrow> unit io" where
  "git_user_confirm_commit w r project_checkout =
     seq (banner (''Running '' @ [CHR 0x27] @ ''git diff'' @ [CHR 0x27] @ '' in: '' @
                  project_checkout))
       (case git_branches r of
          [] \<Rightarrow> raise IndexError
        | main_branch # other_branches \<Rightarrow>
            seq (git_review w r project_checkout main_branch)
              (seq (git_push w r ''fedpkg push'')
                 (seq (build w r)
                    (git_merge_branches w r main_branch other_branches))))"

section \<open>The centralized-VCS releaser: \<^verbatim>\<open>CvsReleaser\<close>\<close>

text \<open>
  \<^verbatim>\<open>self.cvs_branches\<close> as it stands once \<^verbatim>\<open>cvs_checkout_module\<close> has replaced the
  z-stream entries.
\<close>

record cvs_releaser = releaser +
  cvs_branches :: "string list"

text \<open>\<^verbatim>\<open>file.readlines()\<close>: the text cut after every newline.\<close>

fun readlines :: "string \<Rightarrow> string list" where
  "readlines [] = []"
| "readlines (c # cs) =
     (if c = CHR 0x0A then [c] # readlines cs
      else (case readlines cs of [] \<Rightarrow> [[c]] | line # lines \<Rightarrow> (c # line) # lines))"

definition py_mkstemp :: "world \<Rightarrow> string io" where
  "py_mkstemp w tr = (let name = mkstemp w tr in (tr @ [Mkstemp name], Inr name))"

text \<open>\<^verbatim>\<open>subprocess.call(argv)\<close>: \<^verbatim>\<open>OSError\<close> when the program cannot be started.\<close>

definition py_subprocess_call :: "world \<Rightarrow> string list \<Rightarrow> nat io" where
  "py_subprocess_call w argv tr =
     (case subprocess_call w tr argv of
        None \<Rightarrow> (tr @ [Call argv], Inl OSError)
      | Some rc \<Rightarrow> (tr @ [Call argv], Inr rc))"

text \<open>\<^verbatim>\<open>_cvs_user_confirm_commit_msg\<close> (lines 632--672).\<close>

definition cvs_user_confirm_commit_msg :: "world \<Rightarrow> cvs_releaser \<Rightarrow> string \<Rightarrow> unit io" where
  "cvs_user_confirm_commit_msg w r diff_output =
     then_do (py_mkstemp w)
       (\<lambda>name.
          let first_line = ''Update '' @ project_name r @ '' to '' @ build_version r @ [CHR 0x0A];
              bz_lines = map (\<lambda>line. line @ [CHR 0x0A]) (extract_bzs w diff_output);
              cmd = ''cvs commit -F '' @ name
          in seq (emits (map (Write name) (first_line # bz_lines)))
            (seq (emits [Print [], Print ''##### CVS commit message: #####'', Print []])
            (seq (emits (map Print (readlines (concat (first_line # bz_lines)))))
            (seq (emits [Print [], Print ''###############################'', Print []])
            (then_do (ask w ''Would you like to edit this commit message? [y/n] '')
               (\<lambda>answer.
                  seq (if affirmative answer
                       then (let editor = (case environ w ''EDITOR'' of
                                             None \<Rightarrow> ''vi''
                                           | Some e \<Rightarrow> e)
                             in then_do (py_subprocess_call w [editor, name]) (\<lambda>rc. ret ()))
                       else ret ())
                    (seq (if dry_run r then print_dry_run_warning cmd
                          else seq (emits [Print ''Proceeding with commit.'',
                                           Chdir (cvs_package_workdir r)])
                                 (then_do (run_command w cmd) (\<lambda>output. ret ())))
                       (emit (Unlink name)))))))))"

text \<open>\<^verbatim>\<open>_cvs_user_confirm_commit\<close> (lines 609--630).\<close>

definition cvs_user_confirm_commit :: "world \<Rightarrow> cvs_releaser \<Rightarrow> unit io" where
  "cvs_user_confirm_commit w r =
     seq (banner (''Running '' @ [CHR 0x27] @ ''cvs diff -u'' @ [CHR 0x27] @ '' in: '' @
                  cvs_package_workdir r))
       (seq (emit (Chdir (cvs_package_workdir r)))
          (then_do (commands_getstatusoutput w ''cvs diff -u'')
             (\<lambda>(status, diff_output).
                seq (emits [Print diff_output, Print [],
                            Print ''##### Please review the above diff #####''])
                  (then_do (ask w ''Do you wish to proceed with commit? [y/n] '')
                     (\<lambda>answer.
                        seq (if \<not> affirmative answer
                             then seq (emit (Print (''Fine, you'' @ [CHR 0x27] @ ''re on your own!'')))
                                    (seq (cleanup w r) (raise (SystemExit 1)))
                             else ret ())
                          (cvs_user_confirm_commit_msg w r diff_output))))))"

text \<open>\<^verbatim>\<open>_cvs_make_tag\<close> (lines 674--690): the loop over the branches, then the method.\<close>

fun cvs_tag_branches :: "world \<Rightarrow> cvs_releaser \<Rightarrow> string \<Rightarrow> string list \<Rightarrow> unit io" where
  "cvs_tag_branches w r cmd [] = ret ()"
| "cvs_tag_branches w r cmd (branch # rest) =
     (let branch_dir = path_join3 (cvs_workdir r) (project_name r) branch in
      seq (emit (Chdir branch_dir))
        (then_do (commands_getstatusoutput w cmd)
           (\<lambda>(status, output).
              seq (emit (Print output))
                (if status > 1 then seq (cleanup w r) (raise (SystemExit 1))
                 else cvs_tag_branches w r cmd rest))))"

definition cvs_make_tag :: "world \<Rightarrow> cvs_releaser \<Rightarrow> unit io" where
  "cvs_make_tag w r =
     seq (emit (Chdir (cvs_package_workdir r)))
       (let cmd = ''make tag'' in
        if dry_run r then print_dry_run_warning cmd
        else seq (emit (Print ''Creating CVS tags...'')) (cvs_tag_branches w r cmd (cvs_branches r)))"

section \<open>The build-service releaser: \<^verbatim>\<open>KojiReleaser\<close>\<close>

text \<open>
  \<^verbatim>\<open>self.builder.config\<close> is a \<^verbatim>\<open>ConfigParser\<close>: sections, each a table of options.
  \<^verbatim>\<open>has_option\<close> is false for a missing section; \<^verbatim>\<open>get\<close> raises for a missing section
  or option.
\<close>

type_synonym config = "string \<rightharpoonup> (string \<rightharpoonup> string)"

definition config_lookup :: "config \<Rightarrow> string \<Rightarrow> string \<Rightarrow> string option" where
  "config_lookup c section opt = (case c section of None \<Rightarrow> None | Some options \<Rightarrow> options opt)"

definition has_section :: "config \<Rightarrow> string \<Rightarrow> bool" where
  "has_section c section = (c section \<noteq> None)"

definition has_option :: "config \<Rightarrow> string \<Rightarrow> string \<Rightarrow> bool" where
  "has_option c section opt = (config_lookup c section opt \<noteq> None)"

definition config_get :: "config \<Rightarrow> string \<Rightarrow> string \<Rightarrow> string io" where
  "config_get c section opt =
     (case c section of
        None \<Rightarrow> raise (NoSectionError section)
      | Some options \<Rightarrow>
          (case options opt of None \<Rightarrow> raise (NoOptionError opt section) | Some v \<Rightarrow> ret v))"

record koji_releaser = releaser +
  only_tags :: "string list"
  scratch :: bool
  config :: config
  user_config :: "string \<rightharpoonup> string"

definition can_build_in_koji :: "koji_releaser \<Rightarrow> bool" where
  "can_build_in_koji r =
     (if \<not> has_section (config r) ''koji'' then False
      else if \<not> has_option (config r) ''koji'' ''autobuild_tags'' then False
      else True)"

definition is_whitelisted :: "koji_releaser \<Rightarrow> string \<Rightarrow> bool" where
  "is_whitelisted r koji_tag =
     (case config_lookup (config r) koji_tag ''whitelist'' of
        None \<Rightarrow> False
      | Some v \<Rightarrow> project_name r \<in> set (split_sp (strip v)))"

definition is_blacklisted :: "koji_releaser \<Rightarrow> string \<Rightarrow> bool" where
  "is_blacklisted r koji_tag =
     (case config_lookup (config r) koji_tag ''blacklist'' of
        None \<Rightarrow> False
      | Some v \<Rightarrow> project_name r \<in> set (split_sp (strip v)))"

text \<open>
  \<^verbatim>\<open>self.builder.srpm(dist=disttag, reuse_cvs_checkout=True)\<close>: the builder collaborator
  either fails or leaves the new package's path in \<^verbatim>\<open>self.builder.srpm_location\<close>.
\<close>

definition py_builder_srpm :: "world \<Rightarrow> string \<Rightarrow> string io" where
  "py_builder_srpm w disttag tr =
     (case builder_srpm w tr disttag of
        None \<Rightarrow> (tr @ [Srpm disttag], Inl BuilderError)
      | Some srpm_location \<Rightarrow> (tr @ [Srpm disttag], Inr srpm_location))"

text \<open>\<^verbatim>\<open>_submit_build\<close> (lines 812--822).\<close>

definition submit_cmd :: "string \<Rightarrow> string \<Rightarrow> string \<Rightarrow> string \<Rightarrow> string" where
  "submit_cmd executable koji_opts tag srpm_location =
     executable @ '' '' @ koji_opts @ '' '' @ tag @ '' '' @ srpm_location"

definition submit_build ::
  "world \<Rightarrow> 'a releaser_scheme \<Rightarrow> string \<Rightarrow> string \<Rightarrow> string \<Rightarrow> string \<Rightarrow> unit io" where
  "submit_build w r executable koji_opts tag srpm_location =
     (let cmd = submit_cmd executable koji_opts tag srpm_location in
      seq (emit (Print ([CHR 0x0A] @ ''Submitting build with: '' @ cmd)))
        (if dry_run r then print_dry_run_warning cmd
         else then_do (run_command w cmd) (\<lambda>output. emit (Print output))))"

text \<open>The body of the loop of \<^verbatim>\<open>_koji_release\<close> (lines 760--783) for one tag.\<close>

definition not_submitted :: "string \<Rightarrow> string \<Rightarrow> string \<Rightarrow> unit io" where
  "not_submitted project how koji_tag =
     emits [Print (''WARNING: '' @ project @ how @ koji_tag),
            Print ''   Package *NOT* submitted to Koji.'']"

definition koji_tag_body :: "world \<Rightarrow> koji_releaser \<Rightarrow> string \<Rightarrow> string \<Rightarrow> unit io" where
  "koji_tag_body w r koji_opts koji_tag =
     (if only_tags r \<noteq> [] \<and> koji_tag \<notin> set (only_tags r) then ret ()
      else then_do (config_get (config r) koji_tag ''disttag'')
        (\<lambda>disttag.
           let submit = then_do (py_builder_srpm w disttag)
                          (\<lambda>srpm_location. submit_build w r ''koji'' koji_opts koji_tag srpm_location)
           in if has_option (config r) koji_tag ''whitelist'' then
                (if \<not> is_whitelisted r koji_tag
                 then not_submitted (project_name r) '' not specified in whitelist for '' koji_tag
                 else submit)
              else if is_blacklisted r koji_tag
                then not_submitted (project_name r) '' specified in blacklist for '' koji_tag
              else submit))"

fun koji_tag_loop :: "world \<Rightarrow> koji_releaser \<Rightarrow> string \<Rightarrow> string list \<Rightarrow> unit io" where
  "koji_tag_loop w r koji_opts [] = ret ()"
| "koji_tag_loop w r koji_opts (koji_tag # rest) =
     seq (koji_tag_body w r koji_opts koji_tag) (koji_tag_loop w r koji_opts rest)"

text \<open>\<^verbatim>\<open>_koji_release\<close> (lines 741--783).\<close>

definition koji_release :: "world \<Rightarrow> koji_releaser \<Rightarrow> unit io" where
  "koji_release w r =
     then_do (config_get (config r) ''koji'' ''autobuild_tags'')
       (\<lambda>autobuild_tags.
          seq (emit (Print ''Building release in Koji...''))
            (let koji_tags = split_sp (strip autobuild_tags);
                 koji_opts = (case user_config r ''KOJI_OPTIONS'' of
                                None \<Rightarrow> DEFAULT_KOJI_OPTS
                              | Some v \<Rightarrow> v);
                 koji_opts = (if scratch r then koji_opts @ '' '' @ ''--scratch'' else koji_opts)
             in koji_tag_loop w r koji_opts koji_tags))"

text \<open>\<^verbatim>\<open>KojiReleaser.release\<close> (lines 719--723).\<close>

definition koji_releaser_release :: "world \<Rightarrow> koji_releaser \<Rightarrow> bool \<Rightarrow> unit io" where
  "koji_releaser_release w r dry =
     (let r = r\<lparr>dry_run := dry\<rparr> in
      if can_build_in_koji r then koji_release w r else ret ())"

section \<open>Notions used to state the properties\<close>

text \<open>The events that a computation appends to the history it starts from.\<close>

definition events_added :: "'a io \<Rightarrow> event list \<Rightarrow> event list" where
  "events_added m tr = drop (length tr) (fst (m tr))"

text \<open>
  A computation keeps a history within the events that satisfy \<open>ok\<close>: started from a
  history of such events it ends with one, however it ends.
\<close>

definition only_events :: "(event \<Rightarrow> bool) \<Rightarrow> 'a io \<Rightarrow> bool" where
  "only_events ok m = (\<forall>tr tr' res. m tr = (tr', res) \<longrightarrow> list_all ok tr \<longrightarrow> list_all ok tr')"

text \<open>The first line that \<^verbatim>\<open>_build\<close> writes to standard error when a submission fails.\<close>

definition build_failed :: event where
  "build_failed = Stderr ''ERROR: Unable to submit build.''"

definition not_failure :: "event \<Rightarrow> bool" where
  "not_failure ev = (ev \<noteq> build_failed)"

text \<open>
  A computation halts on a failed submission: if the failure line enters the history, the
  computation ends with \<^verbatim>\<open>sys.exit(1)\<close> and only the two detail lines follow the failure line.
\<close>

definition halts_on_failure :: "'a io \<Rightarrow> bool" where
  "halts_on_failure m =
     (\<forall>tr tr' res. m tr = (tr', res) \<longrightarrow> build_failed \<notin> set tr \<longrightarrow> build_failed \<in> set tr' \<longrightarrow>
        res = Inl (SystemExit 1) \<and> (\<exists>pre s out. tr' = pre @ [build_failed, Stderr s, Stderr out]))"

text \<open>
  A computation only appends to the history, and every event it appends satisfies \<open>ok\<close>.
\<close>

definition adds_only :: "(event \<Rightarrow> bool) \<Rightarrow> 'a io \<Rightarrow> bool" where
  "adds_only ok m = (\<forall>tr. \<exists>evs. fst (m tr) = tr @ evs \<and> list_all ok evs)"

text \<open>
  The commands of the git-backed releaser that publish to the remote side: the two pushes and
  the build submission. An event is harmless in a dry run unless it starts one of them.
\<close>

definition publishes :: "string \<Rightarrow> bool" where
  "publishes cmd =
     (cmd = ''fedpkg push'' \<or> cmd = ''fedpkg build --nowait'' \<or> startswith cmd ''git push origin '')"

definition no_publish :: "event \<Rightarrow> bool" where
  "no_publish ev = (case ev of Exec cmd \<Rightarrow> \<not> publishes cmd | _ \<Rightarrow> True)"

definition no_exec :: "event \<Rightarrow> bool" where
  "no_exec ev = (case ev of Exec cmd \<Rightarrow> False | _ \<Rightarrow> True)"

section \<open>Example inputs\<close>

text \<open>A world in which every command succeeds with empty output and the operator says no.\<close>

definition quiet_world :: world where
  "quiet_world =
     \<lparr> getstatusoutput = (\<lambda>tr cmd. (0, [])),
       raw_input = (\<lambda>tr prompt. ''n''),
       subprocess_call = (\<lambda>tr argv. Some 0),
       environ = Map.empty,
       mkstemp = (\<lambda>tr. ''/tmp/tmpAbCdEf''),
       extract_bzs = (\<lambda>diff. []),
       builder_srpm = (\<lambda>tr disttag. Some ''/tmp/tito/pkg.src.rpm'') \<rparr>"

text \<open>
  A \<^verbatim>\<open>tito.props\<close> with one autobuild tag, \<open>dist-f15\<close>, whose section holds a disttag and
  the given further options; and a build-service releaser for the project \<open>pkg\<close> over a
  given configuration.
\<close>

definition tag_config :: "(string \<times> string) list \<Rightarrow> config" where
  "tag_config opts =
     [''koji'' \<mapsto> [''autobuild_tags'' \<mapsto> ''dist-f15''],
      ''dist-f15'' \<mapsto> map_of ((''disttag'', ''.fc15'') # opts)]"

definition koji_example :: "config \<Rightarrow> koji_releaser" where
  "koji_example c =
     \<lparr>project_name = ''pkg'', spec_file = ''/build/pkg.spec'', rpmbuild_gitcopy = ''/git'',
      build_version = ''1.0-1'', cvs_workdir = ''/build/cvswork'',
      cvs_copy_extensions = [''.spec'', ''.patch''], dry_run = False,
      only_tags = [], scratch = False, config = c, user_config = Map.empty\<rparr>"

text \<open>
  A world in which the build submission commands exit with wait status 256 (exit code 1) and
  the given output, and everything else succeeds quietly.
\<close>

definition build_fails_world :: "string \<Rightarrow> world" where
  "build_fails_world msg =
     quiet_world\<lparr>getstatusoutput :=
       (\<lambda>tr cmd. if startswith cmd ''fedpkg build'' \<or> startswith cmd ''koji build''
                  then (256, msg) else (0, []))\<rparr>"

definition git_example :: git_releaser where
  "git_example =
     \<lparr>project_name = ''pkg'', spec_file = ''/build/pkg.spec'', rpmbuild_gitcopy = ''/git'',
      build_version = ''1.0-1'', cvs_workdir = ''/build/cvswork'',
      cvs_copy_extensions = [''.spec'', ''.patch''], dry_run = False,
      branches = ''master stable''\<rparr>"

text \<open>
  A world given by what each command answers and what the operator types, whatever happened
  before; and an operator who agrees to the commit but declines to edit the message.
\<close>

definition scripted_world :: "(string \<Rightarrow> nat \<times> string) \<Rightarrow> (string \<Rightarrow> string) \<Rightarrow> world" where
  "scripted_world answer_of typed =
     quiet_world\<lparr>getstatusoutput := (\<lambda>tr cmd. answer_of cmd),
                  raw_input := (\<lambda>tr prompt. typed prompt)\<rparr>"

definition agrees :: "string \<Rightarrow> string" where
  "agrees prompt = (if prompt = ''Do you wish to proceed with commit? [y/n] '' then ''y'' else ''n'')"

definition cvs_example :: cvs_releaser where
  "cvs_example =
     \<lparr>project_name = ''pkg'', spec_file = ''/build/pkg.spec'', rpmbuild_gitcopy = ''/git'',
      build_version = ''1.0-1'', cvs_workdir = ''/build/cvswork'',
      cvs_copy_extensions = [''.spec'', ''.patch''], dry_run = False,
      cvs_branches = [''RHEL-5'', ''RHEL-6'']\<rparr>"

section \<open>Properties of the file synchronisation\<close>

lemma sync_copy_Cons:
  "sync_copy w d (f # fs) new dest tr =
     (case run_command w (''cp '' @ f @ '' '' @ path_join d (basename f))
             (tr @ [Print ((if path_exists dest (basename f) then ''   copying: ''
                            else ''   adding: '') @ basename f)]) of
        (tr1, Inl e) \<Rightarrow> (tr1, Inl e)
      | (tr1, Inr out) \<Rightarrow>
          sync_copy w d fs (if path_exists dest (basename f) then new else new @ [basename f])
            (cp_effect (basename f) dest) tr1)"
  by (simp add: Let_def seq_def then_do_def emit_def split: prod.splits sum.splits)





lemma sync_copy_new_subset:
  "sync_copy w d files new dest tr = (tr', Inr (new', dest')) \<Longrightarrow>
     set new' \<subseteq> set new \<union> basename ` set files"
proof (induction files arbitrary: new dest tr)
  case Nil
  then show ?case by (simp add: ret_def)
next
  case (Cons g files)
  from Cons.prems obtain tr1 where
    rest: "sync_copy w d files (if path_exists dest (basename g) then new else new @ [basename g])
             (cp_effect (basename g) dest) tr1 = (tr', Inr (new', dest'))"
    by (auto simp only: sync_copy_Cons split: prod.splits sum.splits)
  from Cons.IH [OF rest] show ?case by (auto split: if_splits)
qed


lemma sync_files_Inr:
  assumes "sync_files w files d dest tr = (tr', Inr ((new, copied, old), dest'))"
  shows "\<exists>tr1. sync_copy w d files [] dest (tr @ [Chdir d]) = (tr1, Inr (new, dest'))"
    and "copied = []"
    and "old = filter (\<lambda>filename. filename \<notin> set PROTECTED_BUILD_SYS_FILES \<and>
                                  filename \<notin> set (map basename files)) dest'"
  using assms
  by (auto simp: sync_files_def Let_def seq_def then_do_def emit_def emits_def ret_def
        split: prod.splits sum.splits)

lemma list_files_scan_selected:
  "p \<in> set (list_files_scan gitcopy exts listing) \<Longrightarrow>
     \<exists>filename. (filename, False) \<in> set listing \<and>
                filename \<notin> set PROTECTED_BUILD_SYS_FILES \<and> p = path_join gitcopy filename"
proof (induction listing)
  case Nil
  then show ?case by simp
next
  case (Cons entry listing)
  obtain filename isdir where entry: "entry = (filename, isdir)" by (cases entry)
  from Cons.prems entry consider
    (here) "\<not> isdir" "filename \<notin> set PROTECTED_BUILD_SYS_FILES" "p = path_join gitcopy filename"
    | (later) "p \<in> set (list_files_scan gitcopy exts listing)"
    by (auto simp: Let_def split: if_splits)
  then show ?case
  proof cases
    case here
    then show ?thesis using entry by auto
  next
    case later
    from Cons.IH [OF later] show ?thesis by auto
  qed
qed

lemmas sync_eval =
  sync_files_def sync_copy.simps Let_def seq_def then_do_def emit_def emits_def ret_def raise_def
  run_command_def commands_getstatusoutput_def quiet_world_def basename_def path_join_def
  startswith_def endswith_def path_exists_def cp_effect_def PROTECTED_BUILD_SYS_FILES_def

text \<open>
  Claim C1 (the code departs from it). The claim: the three result sets are pairwise disjoint
  and new together with updated is the set of source base names. The source declares
  \<open>copied_files\<close> as the ``base filenames for pre-existing files we copied over'' and the git
  caller adds \<open>new + copied\<close>, yet nothing is ever appended to it. Evaluated on one source
  file that already exists at the destination: the file is copied, but it is reported neither
  as new nor as updated, so new and updated together miss it.
\<close>

theorem sync_files_updated_file_not_reported:
  "sync_files quiet_world [''/src/pkg.spec''] ''/dest'' [''pkg.spec''] [] =
     ([Chdir ''/dest'', Print ''   copying: pkg.spec'', Exec ''cp /src/pkg.spec /dest/pkg.spec''],
      Inr (([], [], []), [''pkg.spec''])) \<and>
   set ([] :: string list) \<union> set [] \<noteq> set (map basename [''/src/pkg.spec''])"
  by (simp add: sync_eval)

text \<open>
  The part of C1 that the code does keep: the three lists are pairwise disjoint, and what is
  reported as new or updated is a base name of the source list.
\<close>

lemma sync_files_disjoint:
  assumes "sync_files w files_to_copy dest_dir dest tr = (tr', Inr ((new, copied, old), dest'))"
  shows "set new \<inter> set copied = {} \<and> set new \<inter> set old = {} \<and> set copied \<inter> set old = {} \<and>
         set new \<union> set copied \<subseteq> set (map basename files_to_copy)"
proof -
  from sync_files_Inr [OF assms] obtain tr1 where
    copy: "sync_copy w dest_dir files_to_copy [] dest (tr @ [Chdir dest_dir]) =
             (tr1, Inr (new, dest'))"
    and copied: "copied = []"
    and old: "old = filter (\<lambda>filename. filename \<notin> set PROTECTED_BUILD_SYS_FILES \<and>
                                  filename \<notin> set (map basename files_to_copy)) dest'"
    by blast
  have "set new \<subseteq> basename ` set files_to_copy"
    using sync_copy_new_subset [OF copy] by simp
  then show ?thesis using copied old by auto
qed

lemma sync_files_disjoint_example:
  "sync_files quiet_world [''/src/pkg.spec'', ''/src/a.patch''] ''/dest'' [''CVS'', ''old.patch''] [] =
     ([Chdir ''/dest'',
       Print ''   adding: pkg.spec'', Exec ''cp /src/pkg.spec /dest/pkg.spec'',
       Print ''   adding: a.patch'', Exec ''cp /src/a.patch /dest/a.patch'',
       Print ''   deleting: old.patch''],
      Inr (([''pkg.spec'', ''a.patch''], [], [''old.patch'']),
           [''CVS'', ''old.patch'', ''pkg.spec'', ''a.patch''])) \<and>
   set [''pkg.spec'', ''a.patch''] \<inter> set [''old.patch''] = {} \<and>
   set [''pkg.spec'', ''a.patch''] \<union> set [] \<subseteq> set (map basename [''/src/pkg.spec'', ''/src/a.patch''])"
proof -
  have run: "sync_files quiet_world [''/src/pkg.spec'', ''/src/a.patch''] ''/dest''
               [''CVS'', ''old.patch''] [] =
     ([Chdir ''/dest'',
       Print ''   adding: pkg.spec'', Exec ''cp /src/pkg.spec /dest/pkg.spec'',
       Print ''   adding: a.patch'', Exec ''cp /src/a.patch /dest/a.patch'',
       Print ''   deleting: old.patch''],
      Inr (([''pkg.spec'', ''a.patch''], [], [''old.patch'']),
           [''CVS'', ''old.patch'', ''pkg.spec'', ''a.patch'']))"
    by (simp add: sync_eval)
  from sync_files_disjoint [OF run] run show ?thesis by simp
qed

text \<open>
  Claim C5, as stated, fails: it also says that protected files are never selected for
  copying, for every source file list. \<^verbatim>\<open>_sync_files\<close> copies every path of the list it is
  given. Here the list names a \<open>Makefile\<close>: it is reported as new and \<^verbatim>\<open>cp\<close> is run on it.
\<close>

theorem protected_file_copied_counterexample:
  "''Makefile'' \<in> set PROTECTED_BUILD_SYS_FILES \<and>
   sync_files quiet_world [''/src/Makefile''] ''/dest'' [''CVS''] [] =
     ([Chdir ''/dest'', Print ''   adding: Makefile'', Exec ''cp /src/Makefile /dest/Makefile''],
      Inr (([''Makefile''], [], []), [''CVS'', ''Makefile'']))"
  by (simp add: sync_eval)

text \<open>
  Claim C5, amended: for every source file list and destination directory no protected
  filename appears in the obsolete list, whatever the source list and the destination hold;
  and the scan of the working copy in \<^verbatim>\<open>_list_files_to_copy\<close> selects no protected filename
  for copying: every path of its result is the spec file given explicitly, or an entry of
  the listing that is not a directory and not protected.
\<close>

theorem protected_never_obsolete:
  "(sync_files w files_to_copy dest_dir dest tr = (tr', Inr ((new, copied, old), dest')) \<longrightarrow>
      set old \<inter> set PROTECTED_BUILD_SYS_FILES = {}) \<and>
   (p \<in> set (list_files_to_copy r listing) \<longrightarrow>
      p = spec_file r \<or>
      (\<exists>filename. (filename, False) \<in> set listing \<and>
                  filename \<notin> set PROTECTED_BUILD_SYS_FILES \<and>
                  p = path_join (rpmbuild_gitcopy r) filename))"
proof (intro conjI impI)
  assume "sync_files w files_to_copy dest_dir dest tr = (tr', Inr ((new, copied, old), dest'))"
  from sync_files_Inr(3) [OF this] show "set old \<inter> set PROTECTED_BUILD_SYS_FILES = {}"
    by auto
next
  assume "p \<in> set (list_files_to_copy r listing)"
  then show "p = spec_file r \<or>
      (\<exists>filename. (filename, False) \<in> set listing \<and>
                  filename \<notin> set PROTECTED_BUILD_SYS_FILES \<and>
                  p = path_join (rpmbuild_gitcopy r) filename)"
    using list_files_scan_selected [of p "rpmbuild_gitcopy r" "cvs_copy_extensions r" listing]
    by (auto simp: list_files_to_copy_def)
qed

theorem protected_never_obsolete_witness:
  "sync_files quiet_world [''/src/Makefile'', ''/src/a.patch''] ''/dest''
       [''CVS'', ''Makefile'', ''old.patch''] [] =
     ([Chdir ''/dest'',
       Print ''   copying: Makefile'', Exec ''cp /src/Makefile /dest/Makefile'',
       Print ''   adding: a.patch'', Exec ''cp /src/a.patch /dest/a.patch'',
       Print ''   deleting: old.patch''],
      Inr (([''a.patch''], [], [''old.patch'']),
           [''CVS'', ''Makefile'', ''old.patch'', ''a.patch''])) \<and>
   set [''old.patch''] \<inter> set PROTECTED_BUILD_SYS_FILES = {} \<and>
   ''/git/a.patch'' \<in> set (list_files_to_copy
       \<lparr>project_name = ''pkg'', spec_file = ''/build/pkg.spec'', rpmbuild_gitcopy = ''/git'',
        build_version = ''1.0-1'', cvs_workdir = ''/build/cvswork'',
        cvs_copy_extensions = [''.spec'', ''.patch''], dry_run = False\<rparr>
       [(''Makefile'', False), (''a.patch'', False), (''pkg.spec'', False), (''docs'', True)]) \<and>
   (\<exists>filename. (filename, False) \<in>
        set [(''Makefile'', False), (''a.patch'', False), (''pkg.spec'', False), (''docs'', True)] \<and>
      filename \<notin> set PROTECTED_BUILD_SYS_FILES \<and> ''/git/a.patch'' = path_join ''/git'' filename)"
proof -
  let ?r = "\<lparr>project_name = ''pkg'', spec_file = ''/build/pkg.spec'', rpmbuild_gitcopy = ''/git'',
        build_version = ''1.0-1'', cvs_workdir = ''/build/cvswork'',
        cvs_copy_extensions = [''.spec'', ''.patch''], dry_run = False\<rparr>"
  let ?listing = "[(''Makefile'', False), (''a.patch'', False), (''pkg.spec'', False), (''docs'', True)]"
  have run: "sync_files quiet_world [''/src/Makefile'', ''/src/a.patch''] ''/dest''
       [''CVS'', ''Makefile'', ''old.patch''] [] =
     ([Chdir ''/dest'',
       Print ''   copying: Makefile'', Exec ''cp /src/Makefile /dest/Makefile'',
       Print ''   adding: a.patch'', Exec ''cp /src/a.patch /dest/a.patch'',
       Print ''   deleting: old.patch''],
      Inr (([''a.patch''], [], [''old.patch'']),
           [''CVS'', ''Makefile'', ''old.patch'', ''a.patch'']))"
    by (simp add: sync_eval)
  have scan: "''/git/a.patch'' \<in> set (list_files_to_copy ?r ?listing)"
    by (simp add: list_files_to_copy_def Let_def PROTECTED_BUILD_SYS_FILES_def
          endswith_def startswith_def path_join_def)
  from protected_never_obsolete [of quiet_world "[''/src/Makefile'', ''/src/a.patch'']" "''/dest''"
      "[''CVS'', ''Makefile'', ''old.patch'']" "[]" _ "[''a.patch'']" "[]" "[''old.patch'']"
      "[''CVS'', ''Makefile'', ''old.patch'', ''a.patch'']" "''/git/a.patch''" ?r ?listing]
    run scan
  show ?thesis by simp
qed



section \<open>Sequencing lemmas\<close>

lemmas io_defs =
  then_do_def seq_def emit_def emits_def ret_def raise_def commands_getstatusoutput_def
  run_command_def ask_def print_dry_run_warning_def cleanup_def banner_def banner_lines_def
  py_mkstemp_def py_subprocess_call_def py_builder_srpm_def config_get_def

lemma only_events_then_do:
  "only_events ok m \<Longrightarrow> (\<And>x. only_events ok (f x)) \<Longrightarrow> only_events ok (then_do m f)"
  unfolding only_events_def then_do_def
  by (auto split: prod.splits sum.splits) blast+

lemma only_events_seq:
  "only_events ok m \<Longrightarrow> only_events ok k \<Longrightarrow> only_events ok (seq m k)"
  by (simp add: seq_def only_events_then_do)

lemma only_events_ret: "only_events ok (ret x)"
  by (simp add: only_events_def ret_def)

lemma only_events_raise: "only_events ok (raise e)"
  by (simp add: only_events_def raise_def)

lemma only_events_emit: "ok ev \<Longrightarrow> only_events ok (emit ev)"
  by (auto simp: only_events_def emit_def)

lemma only_events_emits: "list_all ok evs \<Longrightarrow> only_events ok (emits evs)"
  by (auto simp: only_events_def emits_def)

lemma only_events_if:
  "(c \<Longrightarrow> only_events ok m) \<Longrightarrow> (\<not> c \<Longrightarrow> only_events ok k) \<Longrightarrow> only_events ok (if c then m else k)"
  by simp

lemma only_events_getstatusoutput: "ok (Exec cmd) \<Longrightarrow> only_events ok (commands_getstatusoutput w cmd)"
  by (auto simp: only_events_def commands_getstatusoutput_def)

lemma only_events_run_command: "ok (Exec cmd) \<Longrightarrow> only_events ok (run_command w cmd)"
  unfolding run_command_def
  by (intro only_events_then_do only_events_getstatusoutput)
     (auto simp: only_events_ret only_events_raise split: prod.splits)

lemma only_events_ask: "ok (Input prompt) \<Longrightarrow> only_events ok (ask w prompt)"
  by (auto simp: only_events_def ask_def)

lemma only_events_cleanup:
  "ok (Exec (''rm -rf '' @ cvs_package_workdir r)) \<Longrightarrow> only_events ok (cleanup w r)"
  unfolding cleanup_def
  by (intro only_events_then_do only_events_run_command only_events_ret)

lemma only_events_warning:
  "(\<And>s. ok (Print s)) \<Longrightarrow> only_events ok (print_dry_run_warning cmd)"
  unfolding print_dry_run_warning_def by (intro only_events_emits) simp

lemmas only_events_intros =
  only_events_then_do only_events_seq only_events_ret only_events_raise only_events_emit
  only_events_emits only_events_if only_events_getstatusoutput only_events_run_command
  only_events_ask only_events_cleanup only_events_warning

lemma not_failure_simps [simp]:
  "not_failure (Print s)" "not_failure (Exec c)" "not_failure (Chdir d)" "not_failure (Input p)"
  by (simp_all add: not_failure_def build_failed_def)

lemma list_all_not_failure: "list_all not_failure tr = (build_failed \<notin> set tr)"
  by (auto simp: list_all_iff not_failure_def)

lemma clean_halts: "only_events not_failure m \<Longrightarrow> halts_on_failure m"
  unfolding only_events_def halts_on_failure_def list_all_not_failure by blast

lemma halts_then_do:
  assumes "halts_on_failure m" and "\<And>x. halts_on_failure (f x)"
  shows "halts_on_failure (then_do m f)"
  unfolding halts_on_failure_def
proof (intro allI impI)
  fix tr tr' res
  assume run: "then_do m f tr = (tr', res)" and clean: "build_failed \<notin> set tr"
    and dirty: "build_failed \<in> set tr'"
  obtain t1 r1 where m: "m tr = (t1, r1)" by (cases "m tr")
  show "res = Inl (SystemExit 1) \<and> (\<exists>pre s out. tr' = pre @ [build_failed, Stderr s, Stderr out])"
  proof (cases r1)
    case (Inl e)
    with run m have "tr' = t1" "res = Inl e" by (simp_all add: then_do_def)
    with assms(1) m clean dirty Inl show ?thesis
      unfolding halts_on_failure_def by blast
  next
    case (Inr x)
    with run m have k: "f x t1 = (tr', res)" by (simp add: then_do_def)
    show ?thesis
    proof (cases "build_failed \<in> set t1")
      case True
      with assms(1) m clean have "r1 = Inl (SystemExit 1)"
        unfolding halts_on_failure_def by blast
      with Inr show ?thesis by simp
    next
      case False
      with assms(2) [of x] k dirty show ?thesis
        unfolding halts_on_failure_def by blast
    qed
  qed
qed

lemma halts_seq: "halts_on_failure m \<Longrightarrow> halts_on_failure k \<Longrightarrow> halts_on_failure (seq m k)"
  by (simp add: seq_def halts_then_do)

lemma build_warned:
  "dry_run r \<Longrightarrow> build w r tr =
     (tr @ [Print [], Print ''WARNING: Skipping command due to --dry-run: fedpkg build --nowait'',
            Print []], Inr ())"
  by (simp add: build_def print_dry_run_warning_def emits_def)

lemma build_run:
  assumes "\<not> dry_run r"
    and "getstatusoutput w (tr @ [Print ''Submitting build: fedpkg build --nowait''])
           ''fedpkg build --nowait'' = (status, output)"
  shows "build w r tr =
     (if status = 0
      then (tr @ [Print ''Submitting build: fedpkg build --nowait'', Exec ''fedpkg build --nowait''],
            Inr ())
      else if str_contains ''already been built'' output
      then (tr @ [Print ''Submitting build: fedpkg build --nowait'', Exec ''fedpkg build --nowait'',
                  Print ''Build has been submitted previously, continuing...''], Inr ())
      else (tr @ [Print ''Submitting build: fedpkg build --nowait'', Exec ''fedpkg build --nowait'',
                  build_failed, Stderr (''  Status code: '' @ str_nat status),
                  Stderr (''  Output: '' @ output)], Inl (SystemExit 1)))"
  using assms
  by (simp add: build_def Let_def seq_def then_do_def emit_def emits_def ret_def raise_def
        commands_getstatusoutput_def build_failed_def)

lemma halts_build: "halts_on_failure (build w r)"
  unfolding halts_on_failure_def
proof (intro allI impI)
  fix tr tr' res
  assume run: "build w r tr = (tr', res)" and clean: "build_failed \<notin> set tr"
    and dirty: "build_failed \<in> set tr'"
  show "res = Inl (SystemExit 1) \<and> (\<exists>pre s out. tr' = pre @ [build_failed, Stderr s, Stderr out])"
  proof (cases "dry_run r")
    case True
    with run clean dirty show ?thesis by (auto simp: build_warned build_failed_def)
  next
    case False
    obtain status out where
      st: "getstatusoutput w (tr @ [Print ''Submitting build: fedpkg build --nowait''])
             ''fedpkg build --nowait'' = (status, out)"
      by (cases "getstatusoutput w (tr @ [Print ''Submitting build: fedpkg build --nowait''])
             ''fedpkg build --nowait''")
    from run clean dirty show ?thesis
      unfolding build_run [OF False st]
      by (auto simp: build_failed_def split: if_splits)
  qed
qed

lemma clean_git_push: "only_events not_failure (git_push w r cmd)"
  unfolding git_push_def by (intro only_events_intros) simp_all

lemma clean_git_review: "only_events not_failure (git_review w r pc main)"
  unfolding git_review_def
  by (intro only_events_intros) (auto intro!: only_events_intros split: prod.splits)

lemma halts_git_merge_branches: "halts_on_failure (git_merge_branches w r main bs)"
proof (induction bs)
  case Nil
  show ?case by (simp add: clean_halts only_events_ret)
next
  case (Cons b bs)
  show ?case
    unfolding git_merge_branches.simps
    by (intro halts_seq halts_then_do halts_build Cons.IH clean_halts clean_git_push
          only_events_emit only_events_run_command) simp_all
qed

lemma only_events_banner: "(\<And>s. ok (Print s)) \<Longrightarrow> only_events ok (banner text)"
  unfolding banner_def banner_lines_def by (intro only_events_emits) simp

lemma halts_git_user_confirm_commit: "halts_on_failure (git_user_confirm_commit w r pc)"
proof (cases "git_branches r")
  case Nil
  then show ?thesis
    unfolding git_user_confirm_commit_def
    by (simp add: clean_halts only_events_seq only_events_banner only_events_raise)
next
  case (Cons main_branch other_branches)
  then show ?thesis
    unfolding git_user_confirm_commit_def
    by (simp add: halts_seq halts_build halts_git_merge_branches clean_halts clean_git_push
          clean_git_review only_events_banner)
qed


section \<open>Properties of the build-service releaser\<close>

lemma config_get_lookup:
  "config_get c section opt tr =
     (case config_lookup c section opt of
        Some v \<Rightarrow> (tr, Inr v)
      | None \<Rightarrow> (tr, Inl (if c section = None then NoSectionError section
                          else NoOptionError opt section)))"
  by (simp add: config_get_def config_lookup_def ret_def raise_def split: option.splits)

lemma koji_tag_body_unfold:
  "koji_tag_body w r koji_opts koji_tag tr =
     (if only_tags r \<noteq> [] \<and> koji_tag \<notin> set (only_tags r) then (tr, Inr ())
      else case config_lookup (config r) koji_tag ''disttag'' of
        None \<Rightarrow> (tr, Inl (if config r koji_tag = None then NoSectionError koji_tag
                          else NoOptionError ''disttag'' koji_tag))
      | Some disttag \<Rightarrow>
          (if has_option (config r) koji_tag ''whitelist'' then
             (if \<not> is_whitelisted r koji_tag
              then not_submitted (project_name r) '' not specified in whitelist for '' koji_tag tr
              else then_do (py_builder_srpm w disttag)
                     (\<lambda>srpm_location. submit_build w r ''koji'' koji_opts koji_tag srpm_location) tr)
           else if is_blacklisted r koji_tag
             then not_submitted (project_name r) '' specified in blacklist for '' koji_tag tr
           else then_do (py_builder_srpm w disttag)
                  (\<lambda>srpm_location. submit_build w r ''koji'' koji_opts koji_tag srpm_location) tr))"
  unfolding koji_tag_body_def Let_def
  by (simp add: then_do_def [of "config_get _ _ _"] config_get_lookup ret_def
        split: option.splits)

lemma is_blacklisted_has_option: "is_blacklisted r t \<Longrightarrow> has_option (config r) t ''blacklist''"
  by (simp add: is_blacklisted_def has_option_def split: option.splits)

lemma is_whitelisted_has_option: "is_whitelisted r t \<Longrightarrow> has_option (config r) t ''whitelist''"
  by (simp add: is_whitelisted_def has_option_def split: option.splits)

lemma skip_whitelist:
  assumes "has_option (config r) koji_tag ''whitelist''" "\<not> is_whitelisted r koji_tag"
  shows "events_added (koji_tag_body w r koji_opts koji_tag) tr = [] \<or>
      events_added (koji_tag_body w r koji_opts koji_tag) tr =
        [Print (''WARNING: '' @ project_name r @ '' not specified in whitelist for '' @ koji_tag),
         Print ''   Package *NOT* submitted to Koji.'']"
  using assms
  by (simp add: koji_tag_body_unfold events_added_def not_submitted_def emits_def
        split: option.splits)

lemma skip_blacklist:
  assumes "\<not> has_option (config r) koji_tag ''whitelist''" "is_blacklisted r koji_tag"
  shows "events_added (koji_tag_body w r koji_opts koji_tag) tr = [] \<or>
      events_added (koji_tag_body w r koji_opts koji_tag) tr =
        [Print (''WARNING: '' @ project_name r @ '' specified in blacklist for '' @ koji_tag),
         Print ''   Package *NOT* submitted to Koji.'']"
  using assms
  by (simp add: koji_tag_body_unfold events_added_def not_submitted_def emits_def
        split: option.splits)

lemma proceed:
  assumes "only_tags r = [] \<or> koji_tag \<in> set (only_tags r)"
    and "config_lookup (config r) koji_tag ''disttag'' = Some disttag"
    and "is_whitelisted r koji_tag \<or>
     \<not> has_option (config r) koji_tag ''whitelist'' \<and> \<not> has_option (config r) koji_tag ''blacklist''"
  shows "koji_tag_body w r koji_opts koji_tag tr =
        then_do (py_builder_srpm w disttag)
          (\<lambda>srpm_location. submit_build w r ''koji'' koji_opts koji_tag srpm_location) tr"
  using assms is_blacklisted_has_option [of r koji_tag] is_whitelisted_has_option [of r koji_tag]
  by (auto simp add: koji_tag_body_unfold)

lemmas koji_eval =
  koji_releaser_release_def can_build_in_koji_def koji_release_def
  koji_tag_body_def submit_build_def submit_cmd_def not_submitted_def is_whitelisted_def
  is_blacklisted_def has_option_def has_section_def config_lookup_def DEFAULT_KOJI_OPTS_def
  strip_def is_space_def Let_def io_defs koji_example_def tag_config_def quiet_world_def
  build_fails_world_def startswith_def events_added_def

text \<open>
  Claim C10: for every invocation of the build-service releaser's release operation, if the
  configuration has no remote-build section or that section declares no autobuild tags, the
  operation returns normally, with nothing done: the history is unchanged, so no build is
  submitted, and no error is raised.
\<close>

theorem koji_release_not_configured:
  "\<not> has_section (config r) ''koji'' \<or> \<not> has_option (config r) ''koji'' ''autobuild_tags'' \<Longrightarrow>
     koji_releaser_release w r dry tr = (tr, Inr ())"
  by (auto simp: koji_releaser_release_def can_build_in_koji_def Let_def ret_def)

theorem koji_release_not_configured_witness:
  "\<not> has_section (config (koji_example Map.empty)) ''koji'' \<and>
   koji_releaser_release quiet_world (koji_example Map.empty) False [] = ([], Inr ()) \<and>
   \<not> has_option (config (koji_example [''koji'' \<mapsto> [''other'' \<mapsto> ''x'']])) ''koji'' ''autobuild_tags'' \<and>
   koji_releaser_release quiet_world (koji_example [''koji'' \<mapsto> [''other'' \<mapsto> ''x'']]) False [] =
     ([], Inr ())"
proof -
  have a: "\<not> has_section (config (koji_example Map.empty)) ''koji''"
    by (simp add: has_section_def koji_example_def)
  have b: "\<not> has_option (config (koji_example [''koji'' \<mapsto> [''other'' \<mapsto> ''x'']])) ''koji''
             ''autobuild_tags''"
    by (simp add: has_option_def config_lookup_def koji_example_def)
  from a b
    koji_release_not_configured [of "koji_example Map.empty" quiet_world False "[]"]
    koji_release_not_configured [of "koji_example [''koji'' \<mapsto> [''other'' \<mapsto> ''x'']]"
      quiet_world False "[]"]
  show ?thesis by simp
qed

text \<open>
  Claim C3, as stated, fails in its last part (``if neither list is declared, submission
  always proceeds''): the loop first applies the caller's tag filter. Here the tag
  \<open>dist-f15\<close> declares neither list, the filter names another tag, and the release does
  nothing beyond its opening line.
\<close>

theorem neither_list_not_submitted_counterexample:
  "\<not> has_option (config ((koji_example (tag_config []))\<lparr>only_tags := [''dist-f14'']\<rparr>))
       ''dist-f15'' ''whitelist'' \<and>
   \<not> has_option (config ((koji_example (tag_config []))\<lparr>only_tags := [''dist-f14'']\<rparr>))
       ''dist-f15'' ''blacklist'' \<and>
   koji_releaser_release quiet_world ((koji_example (tag_config []))\<lparr>only_tags := [''dist-f14'']\<rparr>)
       False [] =
     ([Print ''Building release in Koji...''], Inr ())"
  by (simp add: koji_eval)

text \<open>
  Claim C3, amended. For every configured build tag: if a whitelist is declared and the
  project is not in it, the tag is skipped, whatever a blacklist says: nothing happens for
  it but, at most, the warning. If no whitelist is declared, and a blacklist is declared with
  the project in it, the tag is skipped likewise. If the tag passes the caller's tag filter
  and has a disttag configured, then the releaser goes on to build the source package for
  the tag and, that done, to submit it, when neither list is declared, and also when the
  project is whitelisted (a blacklist notwithstanding).
\<close>

theorem koji_tag_policy:
  "(has_option (config r) koji_tag ''whitelist'' \<and> \<not> is_whitelisted r koji_tag \<longrightarrow>
      events_added (koji_tag_body w r koji_opts koji_tag) tr = [] \<or>
      events_added (koji_tag_body w r koji_opts koji_tag) tr =
        [Print (''WARNING: '' @ project_name r @ '' not specified in whitelist for '' @ koji_tag),
         Print ''   Package *NOT* submitted to Koji.'']) \<and>
   (\<not> has_option (config r) koji_tag ''whitelist'' \<and> is_blacklisted r koji_tag \<longrightarrow>
      events_added (koji_tag_body w r koji_opts koji_tag) tr = [] \<or>
      events_added (koji_tag_body w r koji_opts koji_tag) tr =
        [Print (''WARNING: '' @ project_name r @ '' specified in blacklist for '' @ koji_tag),
         Print ''   Package *NOT* submitted to Koji.'']) \<and>
   ((only_tags r = [] \<or> koji_tag \<in> set (only_tags r)) \<and>
    config_lookup (config r) koji_tag ''disttag'' = Some disttag \<and>
    (is_whitelisted r koji_tag \<or>
     \<not> has_option (config r) koji_tag ''whitelist'' \<and>
     \<not> has_option (config r) koji_tag ''blacklist'') \<longrightarrow>
      koji_tag_body w r koji_opts koji_tag tr =
        then_do (py_builder_srpm w disttag)
          (\<lambda>srpm_location. submit_build w r ''koji'' koji_opts koji_tag srpm_location) tr)"
  using skip_whitelist [of r koji_tag w koji_opts tr] skip_blacklist [of r koji_tag w koji_opts tr]
    proceed [of r koji_tag disttag w koji_opts tr]
  by blast

theorem koji_tag_policy_witness:
  "has_option (config (koji_example (tag_config [(''whitelist'', ''other another'')])))
       ''dist-f15'' ''whitelist'' \<and>
   \<not> is_whitelisted (koji_example (tag_config [(''whitelist'', ''other another'')])) ''dist-f15'' \<and>
   events_added (koji_tag_body quiet_world
       (koji_example (tag_config [(''whitelist'', ''other another'')])) ''build --nowait'' ''dist-f15'') [] =
     [Print ''WARNING: pkg not specified in whitelist for dist-f15'',
      Print ''   Package *NOT* submitted to Koji.''] \<and>
   \<not> has_option (config (koji_example (tag_config [(''blacklist'', ''pkg other'')])))
       ''dist-f15'' ''whitelist'' \<and>
   is_blacklisted (koji_example (tag_config [(''blacklist'', ''pkg other'')])) ''dist-f15'' \<and>
   events_added (koji_tag_body quiet_world
       (koji_example (tag_config [(''blacklist'', ''pkg other'')])) ''build --nowait'' ''dist-f15'') [] =
     [Print ''WARNING: pkg specified in blacklist for dist-f15'',
      Print ''   Package *NOT* submitted to Koji.''] \<and>
   is_whitelisted (koji_example (tag_config [(''whitelist'', ''pkg''), (''blacklist'', ''pkg'')]))
       ''dist-f15'' \<and>
   is_blacklisted (koji_example (tag_config [(''whitelist'', ''pkg''), (''blacklist'', ''pkg'')]))
       ''dist-f15'' \<and>
   koji_tag_body quiet_world
       (koji_example (tag_config [(''whitelist'', ''pkg''), (''blacklist'', ''pkg'')]))
       ''build --nowait'' ''dist-f15'' [] =
     ([Srpm ''.fc15'',
       Print (CHR 0x0A # ''Submitting build with: koji build --nowait dist-f15 /tmp/tito/pkg.src.rpm''),
       Exec ''koji build --nowait dist-f15 /tmp/tito/pkg.src.rpm'', Print []], Inr ()) \<and>
   \<not> has_option (config (koji_example (tag_config []))) ''dist-f15'' ''whitelist'' \<and>
   \<not> has_option (config (koji_example (tag_config []))) ''dist-f15'' ''blacklist'' \<and>
   koji_tag_body quiet_world (koji_example (tag_config [])) ''build --nowait'' ''dist-f15'' [] =
     ([Srpm ''.fc15'',
       Print (CHR 0x0A # ''Submitting build with: koji build --nowait dist-f15 /tmp/tito/pkg.src.rpm''),
       Exec ''koji build --nowait dist-f15 /tmp/tito/pkg.src.rpm'', Print []], Inr ())"
proof -
  let ?out = "koji_example (tag_config [(''whitelist'', ''other another'')])"
  let ?black = "koji_example (tag_config [(''blacklist'', ''pkg other'')])"
  let ?both = "koji_example (tag_config [(''whitelist'', ''pkg''), (''blacklist'', ''pkg'')])"
  let ?plain = "koji_example (tag_config [])"
  have hyps:
    "has_option (config ?out) ''dist-f15'' ''whitelist''"
    "\<not> is_whitelisted ?out ''dist-f15''"
    "\<not> has_option (config ?black) ''dist-f15'' ''whitelist''"
    "is_blacklisted ?black ''dist-f15''"
    "is_whitelisted ?both ''dist-f15''"
    "is_blacklisted ?both ''dist-f15''"
    "\<not> has_option (config ?plain) ''dist-f15'' ''whitelist''"
    "\<not> has_option (config ?plain) ''dist-f15'' ''blacklist''"
    by (simp_all add: koji_eval)
  have filter: "only_tags ?both = []" "only_tags ?plain = []"
    by (simp_all add: koji_example_def)
  have disttag:
    "config_lookup (config ?both) ''dist-f15'' ''disttag'' = Some ''.fc15''"
    "config_lookup (config ?plain) ''dist-f15'' ''disttag'' = Some ''.fc15''"
    by (simp_all add: koji_eval)
  have submit:
    "\<And>r. dry_run r = False \<Longrightarrow>
       then_do (py_builder_srpm quiet_world ''.fc15'')
         (\<lambda>srpm_location. submit_build quiet_world r ''koji'' ''build --nowait'' ''dist-f15''
            srpm_location) [] =
       ([Srpm ''.fc15'',
         Print (CHR 0x0A # ''Submitting build with: koji build --nowait dist-f15 /tmp/tito/pkg.src.rpm''),
         Exec ''koji build --nowait dist-f15 /tmp/tito/pkg.src.rpm'', Print []], Inr ())"
    by (simp add: submit_build_def submit_cmd_def Let_def io_defs quiet_world_def)
  have dry: "dry_run ?both = False" "dry_run ?plain = False"
    by (simp_all add: koji_example_def)
  have skipped:
    "events_added (koji_tag_body quiet_world ?out ''build --nowait'' ''dist-f15'') [] =
       [Print ''WARNING: pkg not specified in whitelist for dist-f15'',
        Print ''   Package *NOT* submitted to Koji.'']"
    "events_added (koji_tag_body quiet_world ?black ''build --nowait'' ''dist-f15'') [] =
       [Print ''WARNING: pkg specified in blacklist for dist-f15'',
        Print ''   Package *NOT* submitted to Koji.'']"
    by (simp_all add: koji_eval)
  from koji_tag_policy [of ?out "''dist-f15''" quiet_world "''build --nowait''" "[]"]
    koji_tag_policy [of ?black "''dist-f15''" quiet_world "''build --nowait''" "[]"]
    koji_tag_policy [of ?both "''dist-f15''" quiet_world "''build --nowait''" "[]" "''.fc15''"]
    koji_tag_policy [of ?plain "''dist-f15''" quiet_world "''build --nowait''" "[]" "''.fc15''"]
    hyps filter disttag skipped submit [OF dry(1)] submit [OF dry(2)]
  show ?thesis by simp
qed

section \<open>Properties of build submission\<close>

lemma submit_build_run:
  assumes "\<not> dry_run r"
    and "getstatusoutput w
           (tr @ [Print (CHR 0x0A # ''Submitting build with: '' @
                         submit_cmd executable koji_opts tag srpm_location)])
           (submit_cmd executable koji_opts tag srpm_location) = (status, out)"
  shows "submit_build w r executable koji_opts tag srpm_location tr =
     (if 0 < status
      then (tr @ [Print (CHR 0x0A # ''Submitting build with: '' @
                         submit_cmd executable koji_opts tag srpm_location),
                  Exec (submit_cmd executable koji_opts tag srpm_location)],
            Inl (CommandError (submit_cmd executable koji_opts tag srpm_location)))
      else (tr @ [Print (CHR 0x0A # ''Submitting build with: '' @
                         submit_cmd executable koji_opts tag srpm_location),
                  Exec (submit_cmd executable koji_opts tag srpm_location), Print out],
            Inr ()))"
  using assms by (simp add: submit_build_def Let_def io_defs)

lemma koji_tag_loop_halts:
  "koji_tag_body w r koji_opts koji_tag tr = (tr', Inl e) \<Longrightarrow>
     koji_tag_loop w r koji_opts (koji_tag # rest) tr = (tr', Inl e)"
  by (simp add: seq_def then_do_def)

lemmas git_eval =
  git_user_confirm_commit_def git_review_def git_push_def build_def git_branches_def
  git_commit_cmd_def affirmative_def lower_def lower_char_def cvs_package_workdir_def
  path_join_def startswith_def endswith_def strip_def is_space_def str_nat.simps digit_char_def
  Let_def io_defs git_example_def build_fails_world_def quiet_world_def

text \<open>
  Claim C2, as stated, fails for the build-service releaser: \<^verbatim>\<open>_submit_build\<close> runs its
  command through \<^verbatim>\<open>run_command\<close> and never looks at the output. Here the submission exits
  with a non-zero status and its output carries the marker phrase; the release ends with the
  command's error instead of going on.
\<close>

theorem koji_already_built_counterexample:
  "str_contains ''already been built'' ''pkg-1.0-1.fc15 has already been built'' \<and>
   koji_releaser_release (build_fails_world ''pkg-1.0-1.fc15 has already been built'')
       (koji_example (tag_config [])) False [] =
     ([Print ''Building release in Koji...'', Srpm ''.fc15'',
       Print (CHR 0x0A # ''Submitting build with: koji build --nowait dist-f15 /tmp/tito/pkg.src.rpm''),
       Exec ''koji build --nowait dist-f15 /tmp/tito/pkg.src.rpm''],
      Inl (CommandError ''koji build --nowait dist-f15 /tmp/tito/pkg.src.rpm''))"
  by (simp add: koji_eval)

text \<open>
  Claim C2, amended. In the git-backed releaser (\<^verbatim>\<open>_build\<close>, the command
  \<^verbatim>\<open>fedpkg build --nowait\<close>): when the command exits with a non-zero status and its output
  contains the marker phrase, the submission counts as done and the run continues; any other
  non-zero exit writes the error lines and ends the run with \<^verbatim>\<open>sys.exit(1)\<close>, and nothing
  follows the error lines in the history of \<^verbatim>\<open>_git_user_confirm_commit\<close>: no further
  branch is attempted. In the build-service releaser (\<^verbatim>\<open>_submit_build\<close>) every non-zero
  exit is fatal, marker or not, and the loop over the tags ends with it: no further tag is
  attempted.
\<close>

theorem build_submission_failure:
  "(\<not> dry_run r \<and>
    getstatusoutput w (tr @ [Print ''Submitting build: fedpkg build --nowait''])
      ''fedpkg build --nowait'' = (status, out) \<and> 0 < status \<longrightarrow>
      build w r tr =
        (if str_contains ''already been built'' out
         then (tr @ [Print ''Submitting build: fedpkg build --nowait'',
                     Exec ''fedpkg build --nowait'',
                     Print ''Build has been submitted previously, continuing...''], Inr ())
         else (tr @ [Print ''Submitting build: fedpkg build --nowait'',
                     Exec ''fedpkg build --nowait'',
                     Stderr ''ERROR: Unable to submit build.'',
                     Stderr (''  Status code: '' @ str_nat status),
                     Stderr (''  Output: '' @ out)], Inl (SystemExit 1)))) \<and>
   (git_user_confirm_commit w g project_checkout gtr = (gtr', res) \<and>
    Stderr ''ERROR: Unable to submit build.'' \<notin> set gtr \<and>
    Stderr ''ERROR: Unable to submit build.'' \<in> set gtr' \<longrightarrow>
      res = Inl (SystemExit 1) \<and>
      (\<exists>pre s t. gtr' = pre @ [Stderr ''ERROR: Unable to submit build.'', Stderr s, Stderr t])) \<and>
   (\<not> dry_run k \<and>
    getstatusoutput w
      (ktr @ [Print (CHR 0x0A # ''Submitting build with: '' @
                     submit_cmd executable koji_opts koji_tag srpm_location)])
      (submit_cmd executable koji_opts koji_tag srpm_location) = (kstatus, kout) \<and>
    0 < kstatus \<longrightarrow>
      submit_build w k executable koji_opts koji_tag srpm_location ktr =
        (ktr @ [Print (CHR 0x0A # ''Submitting build with: '' @
                       submit_cmd executable koji_opts koji_tag srpm_location),
                Exec (submit_cmd executable koji_opts koji_tag srpm_location)],
         Inl (CommandError (submit_cmd executable koji_opts koji_tag srpm_location)))) \<and>
   (koji_tag_body w kr koji_opts koji_tag ltr = (ltr', Inl e) \<longrightarrow>
      koji_tag_loop w kr koji_opts (koji_tag # rest) ltr = (ltr', Inl e))"
proof (intro conjI impI)
  assume "\<not> dry_run r \<and>
    getstatusoutput w (tr @ [Print ''Submitting build: fedpkg build --nowait''])
      ''fedpkg build --nowait'' = (status, out) \<and> 0 < status"
  then show "build w r tr =
        (if str_contains ''already been built'' out
         then (tr @ [Print ''Submitting build: fedpkg build --nowait'',
                     Exec ''fedpkg build --nowait'',
                     Print ''Build has been submitted previously, continuing...''], Inr ())
         else (tr @ [Print ''Submitting build: fedpkg build --nowait'',
                     Exec ''fedpkg build --nowait'',
                     Stderr ''ERROR: Unable to submit build.'',
                     Stderr (''  Status code: '' @ str_nat status),
                     Stderr (''  Output: '' @ out)], Inl (SystemExit 1)))"
    by (simp add: build_run [of r w tr status out] build_failed_def)
next
  assume a: "git_user_confirm_commit w g project_checkout gtr = (gtr', res) \<and>
    Stderr ''ERROR: Unable to submit build.'' \<notin> set gtr \<and>
    Stderr ''ERROR: Unable to submit build.'' \<in> set gtr'"
  from halts_git_user_confirm_commit [of w g project_checkout] a
  have "res = Inl (SystemExit 1) \<and>
      (\<exists>pre s t. gtr' = pre @ [Stderr ''ERROR: Unable to submit build.'', Stderr s, Stderr t])"
    unfolding halts_on_failure_def build_failed_def by blast
  then show "res = Inl (SystemExit 1)"
    and "\<exists>pre s t. gtr' = pre @ [Stderr ''ERROR: Unable to submit build.'', Stderr s, Stderr t]"
    by blast+
next
  assume "\<not> dry_run k \<and>
    getstatusoutput w
      (ktr @ [Print (CHR 0x0A # ''Submitting build with: '' @
                     submit_cmd executable koji_opts koji_tag srpm_location)])
      (submit_cmd executable koji_opts koji_tag srpm_location) = (kstatus, kout) \<and>
    0 < kstatus"
  then show "submit_build w k executable koji_opts koji_tag srpm_location ktr =
        (ktr @ [Print (CHR 0x0A # ''Submitting build with: '' @
                       submit_cmd executable koji_opts koji_tag srpm_location),
                Exec (submit_cmd executable koji_opts koji_tag srpm_location)],
         Inl (CommandError (submit_cmd executable koji_opts koji_tag srpm_location)))"
    by (simp add: submit_build_run [of k w ktr executable koji_opts koji_tag srpm_location
          kstatus kout])
next
  assume "koji_tag_body w kr koji_opts koji_tag ltr = (ltr', Inl e)"
  then show "koji_tag_loop w kr koji_opts (koji_tag # rest) ltr = (ltr', Inl e)"
    by (rule koji_tag_loop_halts)
qed

theorem build_submission_failure_witness:
  "build (build_fails_world ''pkg-1.0-1.fc15 has already been built'') git_example [] =
     ([Print ''Submitting build: fedpkg build --nowait'', Exec ''fedpkg build --nowait'',
       Print ''Build has been submitted previously, continuing...''], Inr ()) \<and>
   build (build_fails_world ''boom'') git_example [] =
     ([Print ''Submitting build: fedpkg build --nowait'', Exec ''fedpkg build --nowait'',
       Stderr ''ERROR: Unable to submit build.'', Stderr ''  Status code: 256'',
       Stderr ''  Output: boom''], Inl (SystemExit 1)) \<and>
   git_user_confirm_commit (build_fails_world ''boom'') git_example ''/co'' [] =
     ([Print [], Print ''##########################'',
       Print (''Running '' @ [CHR 0x27] @ ''git diff'' @ [CHR 0x27] @ '' in: /co''),
       Print ''##########################'', Print [], Chdir ''/co'',
       Exec ''git diff --cached'',
       Print ''No changes in main branch, skipping commit for: master'',
       Print ''fedpkg push'', Exec ''fedpkg push'',
       Print ''Submitting build: fedpkg build --nowait'', Exec ''fedpkg build --nowait''] @
      [Stderr ''ERROR: Unable to submit build.'', Stderr ''  Status code: 256'',
       Stderr ''  Output: boom''],
      Inl (SystemExit 1)) \<and>
   submit_build (build_fails_world ''pkg-1.0-1.fc15 has already been built'')
       (koji_example (tag_config [])) ''koji'' ''build --nowait'' ''dist-f15''
       ''/tmp/tito/pkg.src.rpm'' [] =
     ([Print (CHR 0x0A # ''Submitting build with: koji build --nowait dist-f15 /tmp/tito/pkg.src.rpm''),
       Exec ''koji build --nowait dist-f15 /tmp/tito/pkg.src.rpm''],
      Inl (CommandError ''koji build --nowait dist-f15 /tmp/tito/pkg.src.rpm'')) \<and>
   koji_tag_loop (build_fails_world ''pkg-1.0-1.fc15 has already been built'')
       (koji_example (tag_config [])) ''build --nowait'' [''dist-f15'', ''dist-f16''] [] =
     ([Srpm ''.fc15'',
       Print (CHR 0x0A # ''Submitting build with: koji build --nowait dist-f15 /tmp/tito/pkg.src.rpm''),
       Exec ''koji build --nowait dist-f15 /tmp/tito/pkg.src.rpm''],
      Inl (CommandError ''koji build --nowait dist-f15 /tmp/tito/pkg.src.rpm'')) \<and>
   (\<exists>pre s t. fst (git_user_confirm_commit (build_fails_world ''boom'') git_example ''/co'' []) =
      pre @ [Stderr ''ERROR: Unable to submit build.'', Stderr s, Stderr t])"
proof -
  let ?built = "build_fails_world ''pkg-1.0-1.fc15 has already been built''"
  let ?boom = "build_fails_world ''boom''"
  let ?k = "koji_example (tag_config [])"
  let ?cmd = "''koji build --nowait dist-f15 /tmp/tito/pkg.src.rpm''"
  let ?run = "[Print [], Print ''##########################'',
       Print (''Running '' @ [CHR 0x27] @ ''git diff'' @ [CHR 0x27] @ '' in: /co''),
       Print ''##########################'', Print [], Chdir ''/co'',
       Exec ''git diff --cached'',
       Print ''No changes in main branch, skipping commit for: master'',
       Print ''fedpkg push'', Exec ''fedpkg push'',
       Print ''Submitting build: fedpkg build --nowait'', Exec ''fedpkg build --nowait''] @
      [Stderr ''ERROR: Unable to submit build.'', Stderr ''  Status code: 256'',
       Stderr ''  Output: boom'']"
  have dry: "\<not> dry_run git_example" "\<not> dry_run ?k"
    by (simp_all add: git_example_def koji_example_def)
  have marker: "str_contains ''already been built'' ''pkg-1.0-1.fc15 has already been built''"
    "\<not> str_contains ''already been built'' ''boom''"
    by (simp_all add: startswith_def)
  have answers:
    "getstatusoutput ?built ([] @ [Print ''Submitting build: fedpkg build --nowait''])
       ''fedpkg build --nowait'' = (256, ''pkg-1.0-1.fc15 has already been built'')"
    "getstatusoutput ?boom ([] @ [Print ''Submitting build: fedpkg build --nowait''])
       ''fedpkg build --nowait'' = (256, ''boom'')"
    "getstatusoutput ?built
       ([] @ [Print (CHR 0x0A # ''Submitting build with: '' @
                     submit_cmd ''koji'' ''build --nowait'' ''dist-f15'' ''/tmp/tito/pkg.src.rpm'')])
       (submit_cmd ''koji'' ''build --nowait'' ''dist-f15'' ''/tmp/tito/pkg.src.rpm'') =
     (256, ''pkg-1.0-1.fc15 has already been built'')"
    by (simp_all add: build_fails_world_def quiet_world_def startswith_def submit_cmd_def)
  have cmd: "submit_cmd ''koji'' ''build --nowait'' ''dist-f15'' ''/tmp/tito/pkg.src.rpm'' = ?cmd"
    by (simp add: submit_cmd_def)
  have status: "str_nat 256 = ''256''"
    by (simp add: str_nat.simps digit_char_def)
  have run: "git_user_confirm_commit ?boom git_example ''/co'' [] = (?run, Inl (SystemExit 1))"
    by (simp add: git_eval)
  have body: "koji_tag_body ?built ?k ''build --nowait'' ''dist-f15'' [] =
     ([Srpm ''.fc15'', Print (CHR 0x0A # ''Submitting build with: '' @ ?cmd), Exec ?cmd],
      Inl (CommandError ?cmd))"
    by (simp add: koji_eval)
  note a = build_submission_failure [where w = ?built and r = git_example and tr = "[]"
      and status = 256 and out = "''pkg-1.0-1.fc15 has already been built''"
      and k = ?k and ktr = "[]" and executable = "''koji''" and koji_opts = "''build --nowait''"
      and koji_tag = "''dist-f15''" and srpm_location = "''/tmp/tito/pkg.src.rpm''"
      and kstatus = 256 and kout = "''pkg-1.0-1.fc15 has already been built''"
      and kr = ?k and ltr = "[]"
      and ltr' = "[Srpm ''.fc15'', Print (CHR 0x0A # ''Submitting build with: '' @ ?cmd), Exec ?cmd]"
      and e = "CommandError ?cmd" and rest = "[''dist-f16'']"]
  note b = build_submission_failure [where w = ?boom and r = git_example and tr = "[]"
      and status = 256 and out = "''boom''" and g = git_example
      and project_checkout = "''/co''" and gtr = "[]" and gtr' = ?run
      and res = "Inl (SystemExit 1)"]
  from a [THEN conjunct1] dry marker(1) answers(1) have 1:
    "build ?built git_example [] =
       ([Print ''Submitting build: fedpkg build --nowait'', Exec ''fedpkg build --nowait'',
         Print ''Build has been submitted previously, continuing...''], Inr ())"
    by simp
  from b [THEN conjunct1] dry marker(2) answers(2) status have 2:
    "build ?boom git_example [] =
       ([Print ''Submitting build: fedpkg build --nowait'', Exec ''fedpkg build --nowait'',
         Stderr ''ERROR: Unable to submit build.'', Stderr ''  Status code: 256'',
         Stderr ''  Output: boom''], Inl (SystemExit 1))"
    by simp
  from a [THEN conjunct2, THEN conjunct2, THEN conjunct1] dry answers(3) cmd have 4:
    "submit_build ?built ?k ''koji'' ''build --nowait'' ''dist-f15'' ''/tmp/tito/pkg.src.rpm'' [] =
       ([Print (CHR 0x0A # ''Submitting build with: '' @ ?cmd), Exec ?cmd], Inl (CommandError ?cmd))"
    by simp
  from a [THEN conjunct2, THEN conjunct2, THEN conjunct2] body have 5:
    "koji_tag_loop ?built ?k ''build --nowait'' [''dist-f15'', ''dist-f16''] [] =
       ([Srpm ''.fc15'', Print (CHR 0x0A # ''Submitting build with: '' @ ?cmd), Exec ?cmd],
        Inl (CommandError ?cmd))"
    by blast
  have "Stderr ''ERROR: Unable to submit build.'' \<notin> set []"
    and "Stderr ''ERROR: Unable to submit build.'' \<in> set ?run"
    by simp_all
  with b [THEN conjunct2, THEN conjunct1] run have 3:
    "\<exists>pre s t. ?run = pre @ [Stderr ''ERROR: Unable to submit build.'', Stderr s, Stderr t]"
    by blast
  from 1 2 run 3 4 5 show ?thesis by simp
qed

section \<open>Properties of the centralized-VCS releaser\<close>

lemmas cvs_eval =
  cvs_make_tag_def cvs_user_confirm_commit_def cvs_user_confirm_commit_msg_def
  affirmative_def lower_def lower_char_def cvs_package_workdir_def path_join_def path_join3_def
  startswith_def endswith_def Let_def io_defs cvs_example_def scripted_world_def agrees_def
  quiet_world_def

lemma cvs_tag_branches_Cons:
  assumes "getstatusoutput w (tr @ [Chdir (path_join3 (cvs_workdir r) (project_name r) branch)])
             cmd = (status, out)"
  shows "cvs_tag_branches w r cmd (branch # rest) tr =
     (if 1 < status
      then seq (cleanup w r) (raise (SystemExit 1))
             (tr @ [Chdir (path_join3 (cvs_workdir r) (project_name r) branch), Exec cmd, Print out])
      else cvs_tag_branches w r cmd rest
             (tr @ [Chdir (path_join3 (cvs_workdir r) (project_name r) branch), Exec cmd, Print out]))"
  using assms
  by (simp add: Let_def seq_def then_do_def emit_def commands_getstatusoutput_def)

lemma cleanup_then_exit:
  "seq (cleanup w r) (raise (SystemExit 1)) tr =
     (tr @ [Exec (''rm -rf '' @ cvs_package_workdir r)],
      Inl (if 0 < fst (getstatusoutput w tr (''rm -rf '' @ cvs_package_workdir r))
           then CommandError (''rm -rf '' @ cvs_package_workdir r) else SystemExit 1))"
  by (cases "getstatusoutput w tr (''rm -rf '' @ cvs_package_workdir r)") (simp add: io_defs)

lemma cvs_tag_branches_fatal:
  "cvs_tag_branches w r cmd bs tr = (tr', Inl e) \<Longrightarrow>
     (\<exists>pre. tr' = pre @ [Exec (''rm -rf '' @ cvs_package_workdir r)]) \<and>
     (e = SystemExit 1 \<or> e = CommandError (''rm -rf '' @ cvs_package_workdir r))"
proof (induction bs arbitrary: tr)
  case Nil
  then show ?case by (simp add: ret_def)
next
  case (Cons branch rest)
  let ?tr1 = "tr @ [Chdir (path_join3 (cvs_workdir r) (project_name r) branch)]"
  obtain status out where st: "getstatusoutput w ?tr1 cmd = (status, out)"
    by (cases "getstatusoutput w ?tr1 cmd")
  show ?case
  proof (cases "1 < status")
    case True
    with Cons.prems show ?thesis
      unfolding cvs_tag_branches_Cons [OF st] cleanup_then_exit
      by (auto split: if_splits)
  next
    case False
    with Cons.prems have "cvs_tag_branches w r cmd rest (?tr1 @ [Exec cmd, Print out]) = (tr', Inl e)"
      unfolding cvs_tag_branches_Cons [OF st] by simp
    then show ?thesis by (rule Cons.IH)
  qed
qed

text \<open>
  What the test \<^verbatim>\<open>status > 1\<close> of \<^verbatim>\<open>_cvs_make_tag\<close> does with the status it is given. For
  the branch at hand, a status of 0 or 1 lets the loop go on with the remaining branches; a
  status above 1 runs the workspace cleanup and ends the run: with \<^verbatim>\<open>sys.exit(1)\<close>, or with
  the cleanup's own error when its \<^verbatim>\<open>rm\<close> fails. Whenever \<^verbatim>\<open>_cvs_make_tag\<close> ends the run,
  the cleanup command is the last thing it did.
\<close>

lemma cvs_tag_branches_threshold:
  "(getstatusoutput w (tr @ [Chdir (path_join3 (cvs_workdir r) (project_name r) branch)])
      ''make tag'' = (status, out) \<longrightarrow>
      (status \<le> 1 \<longrightarrow>
         cvs_tag_branches w r ''make tag'' (branch # rest) tr =
           cvs_tag_branches w r ''make tag'' rest
             (tr @ [Chdir (path_join3 (cvs_workdir r) (project_name r) branch),
                    Exec ''make tag'', Print out])) \<and>
      (1 < status \<longrightarrow>
         cvs_tag_branches w r ''make tag'' (branch # rest) tr =
           (tr @ [Chdir (path_join3 (cvs_workdir r) (project_name r) branch),
                  Exec ''make tag'', Print out, Exec (''rm -rf '' @ cvs_package_workdir r)],
            Inl (if 0 < fst (getstatusoutput w
                              (tr @ [Chdir (path_join3 (cvs_workdir r) (project_name r) branch),
                                     Exec ''make tag'', Print out])
                              (''rm -rf '' @ cvs_package_workdir r))
                 then CommandError (''rm -rf '' @ cvs_package_workdir r)
                 else SystemExit 1)))) \<and>
   (\<not> dry_run r \<longrightarrow>
      cvs_make_tag w r tr =
        cvs_tag_branches w r ''make tag'' (cvs_branches r)
          (tr @ [Chdir (cvs_package_workdir r), Print ''Creating CVS tags...''])) \<and>
   (cvs_make_tag w r tr = (tr', Inl e) \<longrightarrow>
      (\<exists>pre. tr' = pre @ [Exec (''rm -rf '' @ cvs_package_workdir r)]) \<and>
      (e = SystemExit 1 \<or> e = CommandError (''rm -rf '' @ cvs_package_workdir r)))"
proof (intro conjI impI)
  assume st: "getstatusoutput w (tr @ [Chdir (path_join3 (cvs_workdir r) (project_name r) branch)])
      ''make tag'' = (status, out)"
  {
    assume "status \<le> 1"
    then show "cvs_tag_branches w r ''make tag'' (branch # rest) tr =
           cvs_tag_branches w r ''make tag'' rest
             (tr @ [Chdir (path_join3 (cvs_workdir r) (project_name r) branch),
                    Exec ''make tag'', Print out])"
      unfolding cvs_tag_branches_Cons [OF st] by simp
  next
    assume "1 < status"
    then show "cvs_tag_branches w r ''make tag'' (branch # rest) tr =
           (tr @ [Chdir (path_join3 (cvs_workdir r) (project_name r) branch),
                  Exec ''make tag'', Print out, Exec (''rm -rf '' @ cvs_package_workdir r)],
            Inl (if 0 < fst (getstatusoutput w
                              (tr @ [Chdir (path_join3 (cvs_workdir r) (project_name r) branch),
                                     Exec ''make tag'', Print out])
                              (''rm -rf '' @ cvs_package_workdir r))
                 then CommandError (''rm -rf '' @ cvs_package_workdir r)
                 else SystemExit 1))"
      unfolding cvs_tag_branches_Cons [OF st] cleanup_then_exit by simp
  }
next
  assume "\<not> dry_run r"
  then show "cvs_make_tag w r tr =
        cvs_tag_branches w r ''make tag'' (cvs_branches r)
          (tr @ [Chdir (cvs_package_workdir r), Print ''Creating CVS tags...''])"
    by (simp add: cvs_make_tag_def Let_def seq_def then_do_def emit_def)
next
  assume run: "cvs_make_tag w r tr = (tr', Inl e)"
  have "\<not> dry_run r"
  proof
    assume "dry_run r"
    with run show False
      by (simp add: cvs_make_tag_def Let_def seq_def then_do_def emit_def emits_def
            print_dry_run_warning_def)
  qed
  with run have "cvs_tag_branches w r ''make tag'' (cvs_branches r)
          (tr @ [Chdir (cvs_package_workdir r), Print ''Creating CVS tags...'']) = (tr', Inl e)"
    by (simp add: cvs_make_tag_def Let_def seq_def then_do_def emit_def)
  from cvs_tag_branches_fatal [OF this]
  show "\<exists>pre. tr' = pre @ [Exec (''rm -rf '' @ cvs_package_workdir r)]"
    and "e = SystemExit 1 \<or> e = CommandError (''rm -rf '' @ cvs_package_workdir r)"
    by blast+
qed

text \<open>
  The status that reaches the test is a wait status. The only statuses at or below 1 are
  those of a process that exited with code 0 or was killed by signal 1; every failing exit of
  \<^verbatim>\<open>make tag\<close> is above the threshold and ends the run.
\<close>

lemma wait_status_at_most_one:
  "wait_status e \<le> 1 \<longleftrightarrow> e = Exited 0 \<or> e = Killed 0 False \<or> e = Killed 1 False"
  by (cases e) (auto simp: wait_status_def)

lemma failing_exit_of_make_tag_is_fatal:
  assumes "0 < code"
    and "getstatusoutput w (tr @ [Chdir (path_join3 (cvs_workdir r) (project_name r) branch)])
           ''make tag'' = (wait_status (Exited code), out)"
  shows "\<exists>e. cvs_tag_branches w r ''make tag'' (branch # rest) tr =
           (tr @ [Chdir (path_join3 (cvs_workdir r) (project_name r) branch),
                  Exec ''make tag'', Print out, Exec (''rm -rf '' @ cvs_package_workdir r)],
            Inl e)"
proof -
  from assms(1) have "1 < wait_status (Exited code)"
    by (simp add: wait_status_def)
  then show ?thesis
    unfolding cvs_tag_branches_Cons [OF assms(2)] cleanup_then_exit by simp
qed


text \<open>
  Claim C8 (the code departs from it). The claim: the scratch file with the commit message is
  removed on every exit path of the commit-message step, also when the commit command fails.
  \<^verbatim>\<open>os.unlink(name)\<close> is the last statement of \<^verbatim>\<open>_cvs_user_confirm_commit_msg\<close> and is not
  protected by a \<^verbatim>\<open>finally\<close>. Evaluated where \<^verbatim>\<open>cvs commit\<close> exits with a non-zero status,
  and where the operator asks for an editor that cannot be started: the step ends with the
  error, and the file created by \<^verbatim>\<open>mkstemp\<close> is never removed.
\<close>

theorem scratch_file_left_behind:
  "cvs_user_confirm_commit_msg
       (scripted_world (\<lambda>cmd. if startswith cmd ''cvs commit'' then (256, ''cvs commit: failed'')
                              else (0, [])) agrees)
       cvs_example ''+fix'' [] =
     ([Mkstemp ''/tmp/tmpAbCdEf'',
       Write ''/tmp/tmpAbCdEf'' (''Update pkg to 1.0-1'' @ [CHR 0x0A]),
       Print [], Print ''##### CVS commit message: #####'', Print [],
       Print (''Update pkg to 1.0-1'' @ [CHR 0x0A]),
       Print [], Print ''###############################'', Print [],
       Input ''Would you like to edit this commit message? [y/n] '',
       Print ''Proceeding with commit.'', Chdir ''/build/cvswork/pkg'',
       Exec ''cvs commit -F /tmp/tmpAbCdEf''],
      Inl (CommandError ''cvs commit -F /tmp/tmpAbCdEf'')) \<and>
   cvs_user_confirm_commit_msg
       (quiet_world\<lparr>raw_input := (\<lambda>tr prompt. ''y''),
                    subprocess_call := (\<lambda>tr argv. None),
                    environ := [''EDITOR'' \<mapsto> ''no-such-editor'']\<rparr>)
       cvs_example ''+fix'' [] =
     ([Mkstemp ''/tmp/tmpAbCdEf'',
       Write ''/tmp/tmpAbCdEf'' (''Update pkg to 1.0-1'' @ [CHR 0x0A]),
       Print [], Print ''##### CVS commit message: #####'', Print [],
       Print (''Update pkg to 1.0-1'' @ [CHR 0x0A]),
       Print [], Print ''###############################'', Print [],
       Input ''Would you like to edit this commit message? [y/n] '',
       Call [''no-such-editor'', ''/tmp/tmpAbCdEf'']],
      Inl OSError)"
  by (simp add: cvs_eval)

text \<open>
  On the one path on which the step returns normally, the removal of the scratch file is the
  last thing it does.
\<close>

lemma scratch_file_removed_on_return:
  assumes "cvs_user_confirm_commit_msg w r diff_output tr = (tr', Inr ())"
  shows "\<exists>pre. tr' = pre @ [Unlink (mkstemp w tr)]"
  using assms
  by (auto simp: cvs_user_confirm_commit_msg_def Let_def io_defs
        split: prod.splits sum.splits if_splits option.splits)

section \<open>What a computation adds to the history\<close>

lemma adds_only_then_do:
  assumes "adds_only ok m" and "\<And>x. adds_only ok (f x)"
  shows "adds_only ok (then_do m f)"
  unfolding adds_only_def
proof
  fix tr
  from assms(1) obtain evs where m: "fst (m tr) = tr @ evs" "list_all ok evs"
    unfolding adds_only_def by blast
  obtain t1 r1 where run: "m tr = (t1, r1)" by (cases "m tr")
  show "\<exists>evs. fst (then_do m f tr) = tr @ evs \<and> list_all ok evs"
  proof (cases r1)
    case (Inl e)
    with run m show ?thesis by (auto simp: then_do_def)
  next
    case (Inr x)
    from assms(2) [of x] obtain evs2 where k: "fst (f x t1) = t1 @ evs2" "list_all ok evs2"
      unfolding adds_only_def by blast
    from run m k Inr have "fst (then_do m f tr) = tr @ (evs @ evs2)" "list_all ok (evs @ evs2)"
      by (simp_all add: then_do_def)
    then show ?thesis by blast
  qed
qed

lemma adds_only_seq: "adds_only ok m \<Longrightarrow> adds_only ok k \<Longrightarrow> adds_only ok (seq m k)"
  by (simp add: seq_def adds_only_then_do)

lemma adds_only_ret: "adds_only ok (ret x)"
  by (simp add: adds_only_def ret_def)

lemma adds_only_raise: "adds_only ok (raise e)"
  by (simp add: adds_only_def raise_def)

lemma adds_only_emit: "ok ev \<Longrightarrow> adds_only ok (emit ev)"
  by (simp add: adds_only_def emit_def)

lemma adds_only_emits: "list_all ok evs \<Longrightarrow> adds_only ok (emits evs)"
  by (simp add: adds_only_def emits_def)

lemma adds_only_if:
  "(c \<Longrightarrow> adds_only ok m) \<Longrightarrow> (\<not> c \<Longrightarrow> adds_only ok k) \<Longrightarrow> adds_only ok (if c then m else k)"
  by simp

lemma adds_only_getstatusoutput: "ok (Exec cmd) \<Longrightarrow> adds_only ok (commands_getstatusoutput w cmd)"
  by (simp add: adds_only_def commands_getstatusoutput_def)

lemma adds_only_run_command: "ok (Exec cmd) \<Longrightarrow> adds_only ok (run_command w cmd)"
  unfolding run_command_def
  by (intro adds_only_then_do adds_only_getstatusoutput)
     (auto simp: adds_only_ret adds_only_raise split: prod.splits)

lemma adds_only_ask: "ok (Input prompt) \<Longrightarrow> adds_only ok (ask w prompt)"
  by (simp add: adds_only_def ask_def)

lemma adds_only_cleanup:
  "ok (Exec (''rm -rf '' @ cvs_package_workdir r)) \<Longrightarrow> adds_only ok (cleanup w r)"
  unfolding cleanup_def
  by (intro adds_only_then_do adds_only_run_command adds_only_ret)

lemma adds_only_warning: "(\<And>s. ok (Print s)) \<Longrightarrow> adds_only ok (print_dry_run_warning cmd)"
  unfolding print_dry_run_warning_def by (intro adds_only_emits) simp

lemma adds_only_banner: "(\<And>s. ok (Print s)) \<Longrightarrow> adds_only ok (banner text)"
  unfolding banner_def banner_lines_def by (intro adds_only_emits) simp

lemma adds_only_mkstemp: "(\<And>name. ok (Mkstemp name)) \<Longrightarrow> adds_only ok (py_mkstemp w)"
  by (simp add: adds_only_def py_mkstemp_def Let_def)

lemma adds_only_subprocess_call: "ok (Call argv) \<Longrightarrow> adds_only ok (py_subprocess_call w argv)"
  by (simp add: adds_only_def py_subprocess_call_def split: option.splits)

lemma adds_only_case_prod:
  "(\<And>a b. adds_only ok (f a b)) \<Longrightarrow> adds_only ok (case p of (a, b) \<Rightarrow> f a b)"
  by (cases p) simp

lemmas adds_only_intros =
  adds_only_then_do adds_only_seq adds_only_ret adds_only_raise adds_only_emit
  adds_only_emits adds_only_if adds_only_getstatusoutput adds_only_run_command
  adds_only_ask adds_only_cleanup adds_only_warning adds_only_banner adds_only_mkstemp
  adds_only_subprocess_call adds_only_case_prod


lemma no_simps [simp]:
  "no_publish (Print s)" "no_publish (Chdir d)" "no_publish (Input p)" "no_publish (Stderr s)"
  "no_publish (Exec cmd) = (\<not> publishes cmd)"
  "no_exec (Print s)" "no_exec (Chdir d)" "no_exec (Input p)" "no_exec (Mkstemp n)"
  "no_exec (Write n s)" "no_exec (Unlink n)" "no_exec (Call argv)" "\<not> no_exec (Exec cmd)"
  by (simp_all add: no_publish_def no_exec_def)

lemma seq_emit: "seq (emit ev) k tr = k (tr @ [ev])"
  by (simp add: seq_def then_do_def emit_def)

lemma seq_emits: "seq (emits evs) k tr = k (tr @ evs)"
  by (simp add: seq_def then_do_def emits_def)

lemma seq_banner: "seq (banner text) k tr = k (tr @ banner_lines text)"
  by (simp add: banner_def seq_emits)

lemma then_do_getstatusoutput:
  "then_do (commands_getstatusoutput w cmd) f tr = f (getstatusoutput w tr cmd) (tr @ [Exec cmd])"
  by (simp add: then_do_def commands_getstatusoutput_def)

lemma then_do_ask: "then_do (ask w prompt) f tr = f (raw_input w tr prompt) (tr @ [Input prompt])"
  by (simp add: then_do_def ask_def)

lemma always_ok [simp]: "list_all (\<lambda>ev. True) evs"
  by (simp add: list_all_iff)

section \<open>Properties of the commit gates and of dry runs\<close>

lemma appends_cvs_user_confirm_commit_msg:
  "adds_only (\<lambda>ev. True) (cvs_user_confirm_commit_msg w r diff_output)"
  unfolding cvs_user_confirm_commit_msg_def Let_def
  by (intro adds_only_intros) simp_all

lemma cvs_gate_prompts:
  "Input ''Do you wish to proceed with commit? [y/n] '' \<in>
     set (events_added (cvs_user_confirm_commit w r) tr)"
proof -
  define tr1 where
    "tr1 = (tr @ banner_lines (''Running '' @ [CHR 0x27] @ ''cvs diff -u'' @ [CHR 0x27] @
               '' in: '' @ cvs_package_workdir r)) @ [Chdir (cvs_package_workdir r)]"
  obtain status diff_output where st: "getstatusoutput w tr1 ''cvs diff -u'' = (status, diff_output)"
    by (cases "getstatusoutput w tr1 ''cvs diff -u''")
  define tr2 where
    "tr2 = (tr1 @ [Exec ''cvs diff -u'']) @
             [Print diff_output, Print [], Print ''##### Please review the above diff #####'']"
  define rest :: "unit io" where
    "rest = seq (if \<not> affirmative
                        (raw_input w tr2 ''Do you wish to proceed with commit? [y/n] '')
                 then seq (emit (Print (''Fine, you'' @ [CHR 0x27] @ ''re on your own!'')))
                        (seq (cleanup w r) (raise (SystemExit 1)))
                 else ret ())
              (cvs_user_confirm_commit_msg w r diff_output)"
  have unfold: "cvs_user_confirm_commit w r tr =
      rest (tr2 @ [Input ''Do you wish to proceed with commit? [y/n] ''])"
    unfolding cvs_user_confirm_commit_def seq_banner seq_emit then_do_getstatusoutput
      tr1_def [symmetric] st prod.case seq_emits then_do_ask tr2_def [symmetric] rest_def
    by (rule refl)
  have "adds_only (\<lambda>ev. True) rest"
    unfolding rest_def
    by (intro adds_only_intros appends_cvs_user_confirm_commit_msg) simp_all
  then obtain evs where
    "fst (rest (tr2 @ [Input ''Do you wish to proceed with commit? [y/n] ''])) =
       (tr2 @ [Input ''Do you wish to proceed with commit? [y/n] '']) @ evs"
    unfolding adds_only_def by blast
  with unfold show ?thesis
    by (simp add: events_added_def tr2_def tr1_def)
qed

lemma git_review_empty_diff:
  assumes "getstatusoutput w (tr @ [Chdir project_checkout]) ''git diff --cached'' =
             (status, diff_output)"
    and "strip diff_output = []"
  shows "git_review w r project_checkout main_branch tr =
     (tr @ [Chdir project_checkout, Exec ''git diff --cached'',
            Print (''No changes in main branch, skipping commit for: '' @ main_branch)],
      Inr ())"
  unfolding git_review_def seq_emit then_do_getstatusoutput assms prod.case
  by (simp add: emit_def)

text \<open>
  Claim C4, as stated, fails for the centralized-VCS variant: its gate has no test for an
  empty diff. Here \<^verbatim>\<open>cvs diff -u\<close> prints nothing; the operator is prompted all the same
  and, having agreed, sees the commit made.
\<close>

theorem cvs_gate_empty_diff_counterexample:
  "strip [] = [] \<and>
   cvs_user_confirm_commit (scripted_world (\<lambda>cmd. (0, [])) agrees) cvs_example [] =
     (banner_lines (''Running '' @ [CHR 0x27] @ ''cvs diff -u'' @ [CHR 0x27] @
                    '' in: /build/cvswork/pkg'') @
      [Chdir ''/build/cvswork/pkg'', Exec ''cvs diff -u'', Print [], Print [],
       Print ''##### Please review the above diff #####'',
       Input ''Do you wish to proceed with commit? [y/n] '',
       Mkstemp ''/tmp/tmpAbCdEf'',
       Write ''/tmp/tmpAbCdEf'' (''Update pkg to 1.0-1'' @ [CHR 0x0A]),
       Print [], Print ''##### CVS commit message: #####'', Print [],
       Print (''Update pkg to 1.0-1'' @ [CHR 0x0A]),
       Print [], Print ''###############################'', Print [],
       Input ''Would you like to edit this commit message? [y/n] '',
       Print ''Proceeding with commit.'', Chdir ''/build/cvswork/pkg'',
       Exec ''cvs commit -F /tmp/tmpAbCdEf'', Unlink ''/tmp/tmpAbCdEf''],
      Inr ())"
  by (simp add: cvs_eval strip_def)

text \<open>
  Claim C4, amended. In the git-backed variant: whenever the diff of the staged changes is
  empty after stripping whitespace, the gate prints that there is nothing to commit and
  returns normally, so the run proceeds; it does not prompt the operator and runs no commit.
  The centralized-VCS variant has no such short cut: its gate prompts the operator whatever
  the diff is.
\<close>

theorem empty_diff_skips_commit:
  "(getstatusoutput w (tr @ [Chdir project_checkout]) ''git diff --cached'' =
      (status, diff_output) \<and> strip diff_output = [] \<longrightarrow>
      git_review w g project_checkout main_branch tr =
        (tr @ [Chdir project_checkout, Exec ''git diff --cached'',
               Print (''No changes in main branch, skipping commit for: '' @ main_branch)],
         Inr ())) \<and>
   Input ''Do you wish to proceed with commit? [y/n] '' \<in>
     set (events_added (cvs_user_confirm_commit w c) ctr)"
  using git_review_empty_diff [of w tr project_checkout status diff_output g main_branch]
    cvs_gate_prompts [of w c ctr]
  by blast

theorem empty_diff_skips_commit_witness:
  "strip [CHR 0x20, CHR 0x0A] = [] \<and>
   git_review (scripted_world (\<lambda>cmd. (0, [CHR 0x20, CHR 0x0A])) agrees) git_example ''/co''
       ''master'' [] =
     ([Chdir ''/co'', Exec ''git diff --cached'',
       Print ''No changes in main branch, skipping commit for: master''], Inr ()) \<and>
   Input ''Do you wish to proceed with commit? [y/n] '' \<in>
     set (events_added (cvs_user_confirm_commit (scripted_world (\<lambda>cmd. (0, [])) agrees)
            cvs_example) [])"
proof -
  let ?w = "scripted_world (\<lambda>cmd. (0, [CHR 0x20, CHR 0x0A])) agrees"
  have blank: "strip [CHR 0x20, CHR 0x0A] = []"
    by (simp add: strip_def is_space_def)
  have answer: "getstatusoutput ?w ([] @ [Chdir ''/co'']) ''git diff --cached'' =
      (0, [CHR 0x20, CHR 0x0A])"
    by (simp add: scripted_world_def quiet_world_def)
  from empty_diff_skips_commit [where w = ?w and tr = "[]" and project_checkout = "''/co''"
      and status = 0 and diff_output = "[CHR 0x20, CHR 0x0A]" and g = git_example
      and main_branch = "''master''", THEN conjunct1] blank answer
  have 1: "git_review ?w git_example ''/co'' ''master'' [] =
     ([Chdir ''/co'', Exec ''git diff --cached'',
       Print ''No changes in main branch, skipping commit for: master''], Inr ())"
    by simp
  from empty_diff_skips_commit [where w = "scripted_world (\<lambda>cmd. (0, [])) agrees"
      and c = cvs_example and ctr = "[]", THEN conjunct2]
  have 2: "Input ''Do you wish to proceed with commit? [y/n] '' \<in>
     set (events_added (cvs_user_confirm_commit (scripted_world (\<lambda>cmd. (0, [])) agrees)
            cvs_example) [])" .
  from blank 1 2 show ?thesis by simp
qed

















end
